theory Spec2Isabelle
  imports Main "HOL-Library.Char_ord" "HOL-Library.List_Lexorder"
begin

section \<open>Errors\<close>

text \<open>
  The services raise \<^verbatim>\<open>new Error(message)\<close>. Each raise keeps its message; the
  constructor records the category under which the specification files it: a missing
  argument is a ValidationError, a failed membership precondition an
  AuthorizationError, a duplicate membership a ConflictError. NotFoundError and
  RemoteError are raised by the document store client, not by the services.
\<close>

datatype error =
    ValidationError string
  | AuthorizationError string
  | ConflictError string
  | NotFoundError string
  | RemoteError string

section \<open>Documents\<close>

text \<open>The interfaces of \<^verbatim>\<open>projects.ts\<close> and \<^verbatim>\<open>tasks.ts\<close>. A field
  declared \<^verbatim>\<open>?: string | null\<close> is an option.\<close>

record Project =
  p_name :: string
  p_ownerId :: string
  p_createdAt :: string

record ProjectMember =
  m_projectId :: string
  m_userId :: string
  m_joinedAt :: string

record Task =
  t_projectId :: string
  t_title :: string
  t_description :: "string option"
  t_status :: string
  t_assigneeId :: "string option"
  t_dueDate :: "string option"
  t_createdAt :: string
  t_updatedAt :: string

record ActivityLog =
  l_projectId :: string
  l_actorId :: string
  l_entityType :: string
  l_entityId :: string
  l_action :: string
  l_createdAt :: string

text \<open>\<^verbatim>\<open>CBDocument<T>\<close>: the stored data together with the id the store gave it.\<close>

record 'a CBDocument =
  doc_id :: string
  doc_data :: 'a

section \<open>The document store client\<close>

text \<open>
  Modelled from the spec: the backend SDK (\<^verbatim>\<open>cocobase\<close>) is an external collaborator
  and is not part of the sources. Section 6 of the specification describes it as four
  named collections, each "a generic document collection supporting
  create/get/list(filter, sort, limit)/update"; section 7 adds that a call to it may fail
  (RemoteError) and that a fetch of an absent document fails (NotFoundError).

  A world holds the four collections in insertion order, the counter the store draws
  fresh ids from, the outcomes of the requests still to come (\<open>True\<close>: that request
  fails; an exhausted list means every further request is served), the calls made to the
  SDK so far with their outcome, oldest first, and the state \<open>client\<close> of the parts of
  the SDK that are not the document store (the auth handler, the realtime watchers).
\<close>

datatype call =
    CreateDocument string
  | ListDocuments string
  | GetDocument string string
  | UpdateDocument string string
  | AuthCall string
  | RealtimeCall string

datatype outcome = Served | Failed error

record 'x world =
  projects :: "Project CBDocument list"
  project_members :: "ProjectMember CBDocument list"
  tasks :: "Task CBDocument list"
  activity_logs :: "ActivityLog CBDocument list"
  next_id :: nat
  faults :: "bool list"
  trace :: "(call \<times> outcome) list"
  client :: 'x

text \<open>A collection of the store: its name and how to read and write it in a world.\<close>

record ('x, 'a) collection =
  coll_name :: string
  coll_get :: "'x world \<Rightarrow> 'a CBDocument list"
  coll_upd :: "('a CBDocument list \<Rightarrow> 'a CBDocument list) \<Rightarrow> 'x world \<Rightarrow> 'x world"

definition projects_c :: "('x, Project) collection" where
  "projects_c = \<lparr>coll_name = ''projects'', coll_get = projects, coll_upd = projects_update\<rparr>"

definition project_members_c :: "('x, ProjectMember) collection" where
  "project_members_c =
     \<lparr>coll_name = ''project_members'', coll_get = project_members,
      coll_upd = project_members_update\<rparr>"

definition tasks_c :: "('x, Task) collection" where
  "tasks_c = \<lparr>coll_name = ''tasks'', coll_get = tasks, coll_upd = tasks_update\<rparr>"

definition activity_logs_c :: "('x, ActivityLog) collection" where
  "activity_logs_c =
     \<lparr>coll_name = ''activity_logs'', coll_get = activity_logs,
      coll_upd = activity_logs_update\<rparr>"

subsection \<open>Promises\<close>

text \<open>An asynchronous function is a function of the world that returns the error it
  rejects with or the value it resolves to, and the world it leaves.\<close>

type_synonym ('s, 'a) promise = "'s \<Rightarrow> (error + 'a) \<times> 's"

definition return :: "'a \<Rightarrow> ('s, 'a) promise" where
  "return v s = (Inr v, s)"

definition throw :: "error \<Rightarrow> ('s, 'a) promise" where
  "throw e s = (Inl e, s)"

definition await :: "('s, 'a) promise \<Rightarrow> ('a \<Rightarrow> ('s, 'b) promise) \<Rightarrow> ('s, 'b) promise" where
  "await m k s = (case m s of (Inl e, s') \<Rightarrow> (Inl e, s') | (Inr v, s') \<Rightarrow> k v s')"

definition try_catch :: "('s, 'a) promise \<Rightarrow> (error \<Rightarrow> ('s, 'a) promise) \<Rightarrow> ('s, 'a) promise" where
  "try_catch m h s = (case m s of (Inl e, s') \<Rightarrow> h e s' | (Inr v, s') \<Rightarrow> (Inr v, s'))"

text \<open>\<^verbatim>\<open>Promise.all\<close> over promises that were all started: every one of them runs,
  the results keep the order of the promises, and the first rejection (in that order) is
  the rejection of the whole.\<close>

fun promise_all :: "('s, 'a) promise list \<Rightarrow> ('s, 'a list) promise" where
  "promise_all [] s = (Inr [], s)"
| "promise_all (m # ms) s =
     (case m s of (r, s1) \<Rightarrow>
        (case promise_all ms s1 of (rs, s2) \<Rightarrow>
           (case r of
              Inl e \<Rightarrow> (Inl e, s2)
            | Inr v \<Rightarrow> (case rs of Inl e \<Rightarrow> (Inl e, s2) | Inr vs \<Rightarrow> (Inr (v # vs), s2)))))"

subsection \<open>Requests\<close>

definition fails_next :: "bool list \<Rightarrow> bool" where
  "fails_next fs = (case fs of [] \<Rightarrow> False | f # _ \<Rightarrow> f)"

definition outcome_of :: "error + 'a \<Rightarrow> outcome" where
  "outcome_of r = (case r of Inl e \<Rightarrow> Failed e | Inr _ \<Rightarrow> Served)"

text \<open>Modelled from the spec: a request to the store (section 7: it may fail "for any
  other reason, e.g. network"). Every request takes the next planned outcome; a failed
  request leaves the collections as they were. The request and its outcome are appended
  to the trace.\<close>

definition request :: "call \<Rightarrow> ('x world, 'a) promise \<Rightarrow> ('x world, 'a) promise" where
  "request c serve s =
     (case (if fails_next (faults s)
            then (Inl (RemoteError ''request failed''), s\<lparr>faults := tl (faults s)\<rparr>)
            else serve (s\<lparr>faults := tl (faults s)\<rparr>)) of
        (r, s1) \<Rightarrow> (r, s1\<lparr>trace := trace s1 @ [(c, outcome_of r)]\<rparr>))"

text \<open>A call to another part of the SDK: what it does to the client state and whether it
  throws is the SDK's; the call and its outcome are appended to the trace.\<close>

definition sdk_call :: "call \<Rightarrow> ('x, 'a) promise \<Rightarrow> ('x world, 'a) promise" where
  "sdk_call c op s =
     (case op (client s) of
        (r, x') \<Rightarrow> (r, s\<lparr>client := x', trace := trace s @ [(c, outcome_of r)]\<rparr>))"

text \<open>Modelled from the spec: the ids that the store gives to new documents. The spec
  says nothing of their form; here the \<open>n\<close>-th document of a world gets the letter
  \<open>d\<close> followed by \<open>n\<close> in decimal, which is never the empty string.\<close>

fun digits :: "nat \<Rightarrow> string" where
  "digits n =
     (if n < 10 then [char_of (48 + n)] else digits (n div 10) @ [char_of (48 + n mod 10)])"

declare digits.simps [simp del]

definition fresh_id :: "nat \<Rightarrow> string" where
  "fresh_id n = CHR ''d'' # digits n"

text \<open>Modelled from the spec: the four operations of a collection (section 6).
  \<open>createDocument\<close> appends the data under a fresh id and returns the document;
  \<open>listDocuments\<close> returns the documents that match the filter, in the order of the
  store, up to the limit (\<open>listDocumentsDesc\<close>: sorted on a field first, greatest first);
  \<open>getDocument\<close> returns the document with the id and fails with NotFoundError when
  there is none; \<open>updateDocument\<close> replaces the given fields of that document, keeps the
  others and returns the updated document.\<close>

fun update_first :: "string \<Rightarrow> 'a CBDocument \<Rightarrow> 'a CBDocument list \<Rightarrow> 'a CBDocument list" where
  "update_first i d' [] = []"
| "update_first i d' (d # ds) = (if doc_id d = i then d' # ds else d # update_first i d' ds)"

definition createDocument :: "('x, 'a) collection \<Rightarrow> 'a \<Rightarrow> ('x world, 'a CBDocument) promise" where
  "createDocument c d =
     request (CreateDocument (coll_name c))
       (\<lambda>s. (Inr \<lparr>doc_id = fresh_id (next_id s), doc_data = d\<rparr>,
             (coll_upd c (\<lambda>ds. ds @ [\<lparr>doc_id = fresh_id (next_id s), doc_data = d\<rparr>]) s)
               \<lparr>next_id := Suc (next_id s)\<rparr>))"

definition listDocuments ::
  "('x, 'a) collection \<Rightarrow> ('a \<Rightarrow> bool) \<Rightarrow> nat \<Rightarrow> ('x world, 'a CBDocument list) promise" where
  "listDocuments c filters limit =
     request (ListDocuments (coll_name c))
       (\<lambda>s. (Inr (take limit (filter (\<lambda>d. filters (doc_data d)) (coll_get c s))), s))"

definition listDocumentsDesc ::
  "('x, 'a) collection \<Rightarrow> ('a \<Rightarrow> bool) \<Rightarrow> nat \<Rightarrow> ('a \<Rightarrow> string)
     \<Rightarrow> ('x world, 'a CBDocument list) promise" where
  "listDocumentsDesc c filters limit field =
     request (ListDocuments (coll_name c))
       (\<lambda>s. (Inr (take limit (rev (sort_key (\<lambda>d. field (doc_data d))
                     (filter (\<lambda>d. filters (doc_data d)) (coll_get c s))))), s))"

definition getDocument :: "('x, 'a) collection \<Rightarrow> string \<Rightarrow> ('x world, 'a CBDocument) promise" where
  "getDocument c i =
     request (GetDocument (coll_name c) i)
       (\<lambda>s. case find (\<lambda>d. doc_id d = i) (coll_get c s) of
               None \<Rightarrow> (Inl (NotFoundError ''document not found''), s)
             | Some d \<Rightarrow> (Inr d, s))"

definition updateDocument ::
  "('x, 'a) collection \<Rightarrow> string \<Rightarrow> ('a \<Rightarrow> 'a) \<Rightarrow> ('x world, 'a CBDocument) promise" where
  "updateDocument c i patch =
     request (UpdateDocument (coll_name c) i)
       (\<lambda>s. case find (\<lambda>d. doc_id d = i) (coll_get c s) of
               None \<Rightarrow> (Inl (NotFoundError ''document not found''), s)
             | Some d \<Rightarrow>
                 (Inr (d\<lparr>doc_data := patch (doc_data d)\<rparr>),
                  coll_upd c (update_first i (d\<lparr>doc_data := patch (doc_data d)\<rparr>)) s))"

section \<open>Projects service (\<^verbatim>\<open>services/projects.ts\<close>)\<close>

text \<open>\<^verbatim>\<open>new Date().toISOString()\<close> is the argument \<open>now\<close> of each operation.\<close>

definition createProject :: "string \<Rightarrow> string \<Rightarrow> string \<Rightarrow> ('x world, Project CBDocument) promise" where
  "createProject ownerId name now =
     (if ownerId = [] then throw (ValidationError ''ownerId is required'')
      else if name = [] then throw (ValidationError ''project name is required'')
      else
        await (createDocument projects_c
                 \<lparr>p_name = name, p_ownerId = ownerId, p_createdAt = now\<rparr>) (\<lambda>project.
        await (createDocument project_members_c
                 \<lparr>m_projectId = doc_id project, m_userId = ownerId, m_joinedAt = now\<rparr>) (\<lambda>_.
        await (createDocument activity_logs_c
                 \<lparr>l_projectId = doc_id project, l_actorId = ownerId, l_entityType = ''project'',
                  l_entityId = doc_id project, l_action = ''create'', l_createdAt = now\<rparr>) (\<lambda>_.
        return project))))"

definition listUserProjects :: "string \<Rightarrow> ('x world, Project CBDocument list) promise" where
  "listUserProjects userId =
     (if userId = [] then throw (ValidationError ''userId is required'')
      else
        await (listDocuments project_members_c (\<lambda>m. m_userId m = userId) 100) (\<lambda>memberships.
        if length memberships = 0 then return []
        else
          await (promise_all
                   (map (\<lambda>m. getDocument projects_c (m_projectId (doc_data m))) memberships))
            (\<lambda>projects. return projects)))"

definition addUserToProject ::
  "string \<Rightarrow> string \<Rightarrow> string \<Rightarrow> string \<Rightarrow> ('x world, ProjectMember CBDocument) promise" where
  "addUserToProject projectId userId actorId now =
     (if projectId = [] then throw (ValidationError ''projectId is required'')
      else if userId = [] then throw (ValidationError ''userId is required'')
      else if actorId = [] then throw (ValidationError ''actorId is required'')
      else
        await (listDocuments project_members_c
                 (\<lambda>m. m_projectId m = projectId \<and> m_userId m = actorId) 1) (\<lambda>actorMemberships.
        if length actorMemberships = 0
        then throw (AuthorizationError ''actor is not a member of the project'')
        else
          await (listDocuments project_members_c
                   (\<lambda>m. m_projectId m = projectId \<and> m_userId m = userId) 1) (\<lambda>exists.
          if length exists > 0
          then throw (ConflictError ''user is already a member of the project'')
          else
            await (createDocument project_members_c
                     \<lparr>m_projectId = projectId, m_userId = userId, m_joinedAt = now\<rparr>) (\<lambda>member.
            await (createDocument activity_logs_c
                     \<lparr>l_projectId = projectId, l_actorId = actorId,
                      l_entityType = ''project_member'', l_entityId = doc_id member,
                      l_action = ''add_member'', l_createdAt = now\<rparr>) (\<lambda>_.
            return member)))))"

section \<open>Tasks service (\<^verbatim>\<open>services/tasks.ts\<close>)\<close>

definition isProjectMember :: "string \<Rightarrow> string \<Rightarrow> ('x world, bool) promise" where
  "isProjectMember userId projectId =
     (if userId = [] \<or> projectId = [] then return False
      else
        await (listDocuments project_members_c
                 (\<lambda>m. m_projectId m = projectId \<and> m_userId m = userId) 1) (\<lambda>membership.
        return (length membership > 0)))"

text \<open>\<^verbatim>\<open>if (assigneeId)\<close>: a string is truthy unless it is empty; \<^verbatim>\<open>null\<close> and
  \<^verbatim>\<open>undefined\<close> (\<open>None\<close>) are falsy. \<^verbatim>\<open>assigneeId ?? null\<close> keeps every string,
  the empty one too.\<close>

definition createTask ::
  "string \<Rightarrow> string \<Rightarrow> string \<Rightarrow> string option \<Rightarrow> string option \<Rightarrow> string option \<Rightarrow> string
     \<Rightarrow> ('x world, Task CBDocument) promise" where
  "createTask actorId projectId title description assigneeId dueDate now =
     (if actorId = [] then throw (ValidationError ''actorId is required'')
      else if projectId = [] then throw (ValidationError ''projectId is required'')
      else if title = [] then throw (ValidationError ''title is required'')
      else
        await (isProjectMember actorId projectId) (\<lambda>actorIsMember.
        if \<not> actorIsMember
        then throw (AuthorizationError ''actor is not a member of the project'')
        else
          await (case assigneeId of
                   None \<Rightarrow> return ()
                 | Some assignee \<Rightarrow>
                     if assignee = [] then return ()
                     else
                       await (isProjectMember assignee projectId) (\<lambda>assigneeIsMember.
                       if \<not> assigneeIsMember
                       then throw (AuthorizationError ''assignee is not a member of the project'')
                       else return ())) (\<lambda>_.
          await (createDocument tasks_c
                   \<lparr>t_projectId = projectId, t_title = title, t_description = description,
                    t_status = ''todo'', t_assigneeId = assigneeId, t_dueDate = dueDate,
                    t_createdAt = now, t_updatedAt = now\<rparr>) (\<lambda>task.
          await (createDocument activity_logs_c
                   \<lparr>l_projectId = projectId, l_actorId = actorId, l_entityType = ''task'',
                    l_entityId = doc_id task, l_action = ''create'', l_createdAt = now\<rparr>) (\<lambda>_.
          return task)))))"

definition assignTask ::
  "string \<Rightarrow> string \<Rightarrow> string \<Rightarrow> string \<Rightarrow> ('x world, Task CBDocument) promise" where
  "assignTask actorId taskId assigneeId now =
     (if actorId = [] then throw (ValidationError ''actorId is required'')
      else if taskId = [] then throw (ValidationError ''taskId is required'')
      else if assigneeId = [] then throw (ValidationError ''assigneeId is required'')
      else
        await (getDocument tasks_c taskId) (\<lambda>task.
        await (isProjectMember actorId (t_projectId (doc_data task))) (\<lambda>actorIsMember.
        if \<not> actorIsMember
        then throw (AuthorizationError ''actor is not a member of the project'')
        else
          await (isProjectMember assigneeId (t_projectId (doc_data task))) (\<lambda>assigneeIsMember.
          if \<not> assigneeIsMember
          then throw (AuthorizationError ''assignee is not a member of the project'')
          else
            await (updateDocument tasks_c taskId
                     (\<lambda>t. t\<lparr>t_assigneeId := Some assigneeId, t_updatedAt := now\<rparr>)) (\<lambda>updated.
            await (createDocument activity_logs_c
                     \<lparr>l_projectId = t_projectId (doc_data task), l_actorId = actorId,
                      l_entityType = ''task'', l_entityId = taskId, l_action = ''assign'',
                      l_createdAt = now\<rparr>) (\<lambda>_.
            return updated))))))"

definition updateTaskStatus ::
  "string \<Rightarrow> string \<Rightarrow> string \<Rightarrow> string \<Rightarrow> ('x world, Task CBDocument) promise" where
  "updateTaskStatus actorId taskId status now =
     (if actorId = [] then throw (ValidationError ''actorId is required'')
      else if taskId = [] then throw (ValidationError ''taskId is required'')
      else if status = [] then throw (ValidationError ''status is required'')
      else if status \<notin> set [''todo'', ''doing'', ''done'']
      then throw (ValidationError ''invalid status'')
      else
        await (getDocument tasks_c taskId) (\<lambda>task.
        await (isProjectMember actorId (t_projectId (doc_data task))) (\<lambda>actorIsMember.
        if \<not> actorIsMember
        then throw (AuthorizationError ''actor is not a member of the project'')
        else
          await (updateDocument tasks_c taskId
                   (\<lambda>t. t\<lparr>t_status := status, t_updatedAt := now\<rparr>)) (\<lambda>updated.
          await (createDocument activity_logs_c
                   \<lparr>l_projectId = t_projectId (doc_data task), l_actorId = actorId,
                    l_entityType = ''task'', l_entityId = taskId,
                    l_action = ''status:'' @ status, l_createdAt = now\<rparr>) (\<lambda>_.
          return updated)))))"

definition listProjectTasks :: "string \<Rightarrow> ('x world, Task CBDocument list) promise" where
  "listProjectTasks projectId =
     (if projectId = [] then throw (ValidationError ''projectId is required'')
      else await (listDocuments tasks_c (\<lambda>t. t_projectId t = projectId) 200) (\<lambda>tasks.
           return tasks))"

section \<open>Activity service (\<^verbatim>\<open>services/activity.ts\<close>)\<close>

text \<open>The parameter \<^verbatim>\<open>limit = 100\<close>: an absent argument is \<open>None\<close>.\<close>

definition listActivityLogs ::
  "string \<Rightarrow> nat option \<Rightarrow> ('x world, ActivityLog CBDocument list) promise" where
  "listActivityLogs projectId limit =
     (if projectId = [] then throw (ValidationError ''projectId is required'')
      else await (listDocumentsDesc activity_logs_c (\<lambda>l. l_projectId l = projectId)
                    (case limit of None \<Rightarrow> 100 | Some n \<Rightarrow> n) l_createdAt) (\<lambda>logs.
           return logs))"

text \<open>
  The realtime watcher of the SDK is taken as a parameter: \<open>rt_collection\<close> opens a
  watcher on a collection filtered by \<open>projectId\<close>, \<open>rt_on\<close> registers a handler for
  an event, \<open>rt_connect\<close> and \<open>rt_disconnect\<close> open and close the channel. Each of them
  may throw. Nothing is assumed about what they do to the client state \<open>'x\<close>.
\<close>

record ('x, 'w, 'h) realtime =
  rt_collection :: "string \<Rightarrow> string \<Rightarrow> ('x, 'w) promise"
  rt_on :: "string \<Rightarrow> 'w \<Rightarrow> 'h \<Rightarrow> ('x, unit) promise"
  rt_connect :: "'w \<Rightarrow> ('x, unit) promise"
  rt_disconnect :: "'w \<Rightarrow> ('x, unit) promise"

record 'h handlers =
  onConnected :: "'h option"
  onCreate :: "'h option"
  onUpdate :: "'h option"
  onDelete :: "'h option"
  onError :: "'h option"
  onClose :: "'h option"

text \<open>\<^verbatim>\<open>handlers.onCreate && watcher.onCreate(handlers.onCreate)\<close>\<close>

definition attach ::
  "('x, 'w, 'h) realtime \<Rightarrow> 'w \<Rightarrow> string \<Rightarrow> 'h option \<Rightarrow> ('x world, unit) promise" where
  "attach rt watcher event h =
     (case h of None \<Rightarrow> return ()
      | Some f \<Rightarrow> sdk_call (RealtimeCall event) (rt_on rt event watcher f))"

text \<open>The function that \<^verbatim>\<open>subscribeActivityLogs\<close> returns.\<close>

definition unsubscribe :: "('x, 'w, 'h) realtime \<Rightarrow> 'w \<Rightarrow> ('x world, unit) promise" where
  "unsubscribe rt watcher =
     try_catch (sdk_call (RealtimeCall ''disconnect'') (rt_disconnect rt watcher))
       (\<lambda>err. return ())"

definition subscribeActivityLogs ::
  "('x, 'w, 'h) realtime \<Rightarrow> string \<Rightarrow> 'h handlers
     \<Rightarrow> ('x world, ('x world, unit) promise) promise" where
  "subscribeActivityLogs rt projectId hs =
     (if projectId = [] then throw (ValidationError ''projectId is required'')
      else
        await (sdk_call (RealtimeCall ''collection'')
                 (rt_collection rt ''activity_logs'' projectId)) (\<lambda>watcher.
        await (attach rt watcher ''onConnected'' (onConnected hs)) (\<lambda>_.
        await (attach rt watcher ''onCreate'' (onCreate hs)) (\<lambda>_.
        await (attach rt watcher ''onUpdate'' (onUpdate hs)) (\<lambda>_.
        await (attach rt watcher ''onDelete'' (onDelete hs)) (\<lambda>_.
        await (attach rt watcher ''onError'' (onError hs)) (\<lambda>_.
        await (attach rt watcher ''onClose'' (onClose hs)) (\<lambda>_.
        await (sdk_call (RealtimeCall ''connect'') (rt_connect rt watcher)) (\<lambda>_.
        return (unsubscribe rt watcher))))))))))"

section \<open>Authentication service (\<^verbatim>\<open>services/auth.ts\<close>)\<close>

text \<open>
  The auth handler of the SDK is a parameter as well. \<open>auth_getUser\<close> reads the user the
  handler holds in memory, \<open>auth_getCurrentUser\<close> asks the server; either may answer
  with no user (\<^verbatim>\<open>null\<close> or \<^verbatim>\<open>undefined\<close>).
\<close>

record AppUser =
  u_id :: string
  u_email :: string

record ('x, 'd, 'c) auth =
  auth_register :: "string \<Rightarrow> string \<Rightarrow> 'd option \<Rightarrow> ('x, unit) promise"
  auth_login :: "string \<Rightarrow> string \<Rightarrow> ('x, unit) promise"
  auth_getUser :: "('x, AppUser option) promise"
  auth_getCurrentUser :: "('x, AppUser option) promise"
  auth_isAuthenticated :: "('x, bool) promise"
  auth_logout :: "('x, unit) promise"
  auth_onAuthEvent :: "'c \<Rightarrow> ('x, unit) promise"

definition signup ::
  "('x, 'd, 'c) auth \<Rightarrow> string \<Rightarrow> string \<Rightarrow> 'd option \<Rightarrow> ('x world, AppUser option) promise" where
  "signup a email password data =
     await (sdk_call (AuthCall ''register'') (auth_register a email password data)) (\<lambda>_.
     await (sdk_call (AuthCall ''getUser'') (auth_getUser a)) (\<lambda>user.
     if user = None
     then await (sdk_call (AuthCall ''getCurrentUser'') (auth_getCurrentUser a)) (\<lambda>u. return u)
     else return user))"

definition login ::
  "('x, 'd, 'c) auth \<Rightarrow> string \<Rightarrow> string \<Rightarrow> ('x world, AppUser option) promise" where
  "login a email password =
     await (sdk_call (AuthCall ''login'') (auth_login a email password)) (\<lambda>_.
     await (sdk_call (AuthCall ''getUser'') (auth_getUser a)) (\<lambda>user.
     if user = None
     then await (sdk_call (AuthCall ''getCurrentUser'') (auth_getCurrentUser a)) (\<lambda>u. return u)
     else return user))"

definition getCurrentUser :: "('x, 'd, 'c) auth \<Rightarrow> ('x world, AppUser option) promise" where
  "getCurrentUser a =
     try_catch
       (await (sdk_call (AuthCall ''isAuthenticated'') (auth_isAuthenticated a)) (\<lambda>authenticated.
        if \<not> authenticated then return None
        else await (sdk_call (AuthCall ''getCurrentUser'') (auth_getCurrentUser a)) (\<lambda>user.
             return user)))
       (\<lambda>err. return None)"

definition logout :: "('x, 'd, 'c) auth \<Rightarrow> ('x world, unit) promise" where
  "logout a = sdk_call (AuthCall ''logout'') (auth_logout a)"

definition onAuthEvent :: "('x, 'd, 'c) auth \<Rightarrow> 'c \<Rightarrow> ('x world, unit) promise" where
  "onAuthEvent a callbacks = sdk_call (AuthCall ''onAuthEvent'') (auth_onAuthEvent a callbacks)"

definition isAuthenticated :: "('x, 'd, 'c) auth \<Rightarrow> ('x world, bool) promise" where
  "isAuthenticated a = sdk_call (AuthCall ''isAuthenticated'') (auth_isAuthenticated a)"

section \<open>Notions of the specification\<close>

text \<open>A user has a membership record for a project (the ProjectMembership relation of
  the data model).\<close>

definition has_membership :: "'x world \<Rightarrow> string \<Rightarrow> string \<Rightarrow> bool" where
  "has_membership s userId projectId =
     (\<exists>m \<in> set (project_members s).
        m_projectId (doc_data m) = projectId \<and> m_userId (doc_data m) = userId)"

text \<open>What the membership policy \<open>isProjectMember\<close> answers when its lookup is served.\<close>

definition is_member :: "'x world \<Rightarrow> string \<Rightarrow> string \<Rightarrow> bool" where
  "is_member s userId projectId =
     (userId \<noteq> [] \<and> projectId \<noteq> [] \<and> has_membership s userId projectId)"

text \<open>No request still to come is planned to fail.\<close>

definition no_remote_failure :: "'x world \<Rightarrow> bool" where
  "no_remote_failure s = (True \<notin> set (faults s))"

text \<open>The stored documents of a world, and the id counter of the store.\<close>

definition documents ::
  "'x world \<Rightarrow> Project CBDocument list \<times> ProjectMember CBDocument list \<times> Task CBDocument list
     \<times> ActivityLog CBDocument list \<times> nat" where
  "documents s = (projects s, project_members s, tasks s, activity_logs s, next_id s)"

text \<open>The document with a given id, as \<open>getDocument\<close> finds it.\<close>

definition task_by_id :: "'x world \<Rightarrow> string \<Rightarrow> Task CBDocument option" where
  "task_by_id s i = find (\<lambda>d. doc_id d = i) (tasks s)"

definition project_by_id :: "'x world \<Rightarrow> string \<Rightarrow> Project CBDocument option" where
  "project_by_id s i = find (\<lambda>d. doc_id d = i) (projects s)"

text \<open>The membership rows that \<open>listUserProjects\<close> looks up: the rows of the user in the
  order of the store, cut at the limit of the query.\<close>

definition memberships_of :: "'x world \<Rightarrow> string \<Rightarrow> ProjectMember CBDocument list" where
  "memberships_of s userId =
     take 100 (filter (\<lambda>d. m_userId (doc_data d) = userId) (project_members s))"

text \<open>The calls issued between two worlds, and whether all of them were served.\<close>

definition issued :: "'x world \<Rightarrow> 'x world \<Rightarrow> (call \<times> outcome) list" where
  "issued s s' = drop (length (trace s)) (trace s')"

definition all_served :: "'x world \<Rightarrow> 'x world \<Rightarrow> bool" where
  "all_served s s' =
     (take (length (trace s)) (trace s') = trace s \<and> list_all (\<lambda>x. snd x = Served) (issued s s'))"

text \<open>An operation propagates failures: whenever it resolves, every call to the SDK that
  it issued was served.\<close>

definition propagates :: "('x world, 'a) promise \<Rightarrow> bool" where
  "propagates m = (\<forall>s v s'. m s = (Inr v, s') \<longrightarrow> all_served s s')"

text \<open>
  The audit discipline of a mutating operation, given the world \<open>s\<close> it started in, its
  result and the writes it makes to the primary entities: when the operation resolves,
  the log holds exactly one entry more and keeps every entry it had, the calls issued end
  with the primary writes followed by the write of the log entry, all served, and no
  other write to the log was issued; when it rejects, the log is as it was.
\<close>

definition audited :: "call list \<Rightarrow> 'x world \<Rightarrow> (error + 'a) \<times> 'x world \<Rightarrow> bool" where
  "audited writes s r =
     (case r of
        (Inr v, s') \<Rightarrow>
          activity_logs s' = activity_logs s @ [last (activity_logs s')] \<and>
          take (length (trace s)) (trace s') = trace s \<and>
          drop (length (issued s s') - Suc (length writes)) (issued s s') =
            map (\<lambda>w. (w, Served)) writes @ [(CreateDocument ''activity_logs'', Served)] \<and>
          length (filter (\<lambda>x. fst x = CreateDocument ''activity_logs'') (issued s s')) = 1
      | (Inl e, s') \<Rightarrow> activity_logs s' = activity_logs s)"

text \<open>A world with no documents, one with a project, its owner and a task, and one in
  which a user joined a second project before the first.\<close>

definition empty_world :: "unit world" where
  "empty_world =
     \<lparr>projects = [], project_members = [], tasks = [], activity_logs = [], next_id = 0,
      faults = [], trace = [], client = ()\<rparr>"

definition demo_world :: "unit world" where
  "demo_world =
     \<lparr>projects = [\<lparr>doc_id = ''p1'', doc_data =
                    \<lparr>p_name = ''Launch'', p_ownerId = ''u1'', p_createdAt = ''t0''\<rparr>\<rparr>],
      project_members = [\<lparr>doc_id = ''m1'', doc_data =
                    \<lparr>m_projectId = ''p1'', m_userId = ''u1'', m_joinedAt = ''t0''\<rparr>\<rparr>],
      tasks = [\<lparr>doc_id = ''t1'', doc_data =
                    \<lparr>t_projectId = ''p1'', t_title = ''Ship'', t_description = None,
                     t_status = ''done'', t_assigneeId = None, t_dueDate = None,
                     t_createdAt = ''t0'', t_updatedAt = ''t0''\<rparr>\<rparr>],
      activity_logs = [], next_id = 7, faults = [], trace = [], client = ()\<rparr>"

definition two_projects_world :: "unit world" where
  "two_projects_world =
     \<lparr>projects = [\<lparr>doc_id = ''p1'', doc_data =
                    \<lparr>p_name = ''Launch'', p_ownerId = ''u1'', p_createdAt = ''t0''\<rparr>\<rparr>,
                  \<lparr>doc_id = ''p2'', doc_data =
                    \<lparr>p_name = ''Audit'', p_ownerId = ''u1'', p_createdAt = ''t1''\<rparr>\<rparr>],
      project_members = [\<lparr>doc_id = ''m1'', doc_data =
                    \<lparr>m_projectId = ''p1'', m_userId = ''u1'', m_joinedAt = ''t0''\<rparr>\<rparr>,
                  \<lparr>doc_id = ''m2'', doc_data =
                    \<lparr>m_projectId = ''p2'', m_userId = ''u1'', m_joinedAt = ''t1''\<rparr>\<rparr>,
                  \<lparr>doc_id = ''m3'', doc_data =
                    \<lparr>m_projectId = ''p2'', m_userId = ''u3'', m_joinedAt = ''t2''\<rparr>\<rparr>,
                  \<lparr>doc_id = ''m4'', doc_data =
                    \<lparr>m_projectId = ''p1'', m_userId = ''u3'', m_joinedAt = ''t3''\<rparr>\<rparr>],
      tasks = [], activity_logs = [], next_id = 7, faults = [], trace = [], client = ()\<rparr>"

text \<open>An auth handler whose session is open and whose server cannot be reached, and a
  realtime watcher whose channel is already closed.\<close>

definition offline_auth :: "(unit, unit, unit) auth" where
  "offline_auth =
     \<lparr>auth_register = (\<lambda>email password data. throw (RemoteError ''network'')),
      auth_login = (\<lambda>email password. throw (RemoteError ''network'')),
      auth_getUser = return None,
      auth_getCurrentUser = throw (RemoteError ''network''),
      auth_isAuthenticated = return True,
      auth_logout = return (),
      auth_onAuthEvent = (\<lambda>callbacks. return ())\<rparr>"

definition closed_channel :: "(unit, unit, unit) realtime" where
  "closed_channel =
     \<lparr>rt_collection = (\<lambda>name projectId. return ()),
      rt_on = (\<lambda>event watcher handler. return ()),
      rt_connect = (\<lambda>watcher. return ()),
      rt_disconnect = (\<lambda>watcher. throw (RemoteError ''channel is closed''))\<rparr>"

section \<open>Auxiliary facts\<close>

lemma quiet_tl: "True \<notin> set fs \<Longrightarrow> True \<notin> set (tl fs)"
  by (cases fs) auto

lemma quiet_next: "True \<notin> set fs \<Longrightarrow> \<not> fails_next fs"
  by (cases fs) (auto simp: fails_next_def)

lemmas promise_defs = return_def throw_def await_def request_def outcome_of_def

lemmas store_defs = createDocument_def listDocuments_def getDocument_def updateDocument_def
  projects_c_def project_members_c_def tasks_c_def activity_logs_c_def

lemma membership_filter:
  "(filter (\<lambda>d. m_projectId (doc_data d) = p \<and> m_userId (doc_data d) = u) (project_members s) = [])
     = (\<not> has_membership s u p)"
  by (auto simp: has_membership_def filter_empty_conv)

subsection \<open>What a resolved call has done\<close>

lemma createProject_Inr:
  assumes "createProject ownerId name now s = (Inr project, s')"
  shows "ownerId \<noteq> [] \<and> name \<noteq> [] \<and>
     project = \<lparr>doc_id = fresh_id (next_id s), doc_data =
                 \<lparr>p_name = name, p_ownerId = ownerId, p_createdAt = now\<rparr>\<rparr> \<and>
     s' = s\<lparr>projects := projects s @ [project],
            project_members := project_members s @
              [\<lparr>doc_id = fresh_id (Suc (next_id s)), doc_data =
                 \<lparr>m_projectId = doc_id project, m_userId = ownerId, m_joinedAt = now\<rparr>\<rparr>],
            activity_logs := activity_logs s @
              [\<lparr>doc_id = fresh_id (Suc (Suc (next_id s))), doc_data =
                 \<lparr>l_projectId = doc_id project, l_actorId = ownerId,
                  l_entityType = ''project'', l_entityId = doc_id project,
                  l_action = ''create'', l_createdAt = now\<rparr>\<rparr>],
            next_id := Suc (Suc (Suc (next_id s))),
            faults := tl (tl (tl (faults s))),
            trace := trace s @
              [(CreateDocument ''projects'', Served), (CreateDocument ''project_members'', Served),
               (CreateDocument ''activity_logs'', Served)]\<rparr>"
  using assms
  by (auto simp: createProject_def promise_defs store_defs split: if_splits)

lemma createProject_Inl:
  assumes "createProject ownerId name now s = (Inl e, s')"
  shows "activity_logs s' = activity_logs s"
  using assms
  by (auto simp: createProject_def promise_defs store_defs split: if_splits)

lemma addUserToProject_Inr:
  assumes "addUserToProject projectId userId actorId now s = (Inr member, s')"
  shows "projectId \<noteq> [] \<and> userId \<noteq> [] \<and> actorId \<noteq> [] \<and>
     has_membership s actorId projectId \<and> \<not> has_membership s userId projectId \<and>
     member = \<lparr>doc_id = fresh_id (next_id s), doc_data =
                 \<lparr>m_projectId = projectId, m_userId = userId, m_joinedAt = now\<rparr>\<rparr> \<and>
     s' = s\<lparr>project_members := project_members s @ [member],
            activity_logs := activity_logs s @
              [\<lparr>doc_id = fresh_id (Suc (next_id s)), doc_data =
                 \<lparr>l_projectId = projectId, l_actorId = actorId,
                  l_entityType = ''project_member'', l_entityId = doc_id member,
                  l_action = ''add_member'', l_createdAt = now\<rparr>\<rparr>],
            next_id := Suc (Suc (next_id s)),
            faults := tl (tl (tl (tl (faults s)))),
            trace := trace s @
              [(ListDocuments ''project_members'', Served), (ListDocuments ''project_members'', Served),
               (CreateDocument ''project_members'', Served),
               (CreateDocument ''activity_logs'', Served)]\<rparr>"
  using assms
  by (auto simp: addUserToProject_def promise_defs store_defs membership_filter split: if_splits)

lemma addUserToProject_Inl:
  assumes "addUserToProject projectId userId actorId now s = (Inl e, s')"
  shows "activity_logs s' = activity_logs s"
  using assms
  by (auto simp: addUserToProject_def promise_defs store_defs split: if_splits)

lemma createTask_Inr:
  assumes "createTask actorId projectId title description assigneeId dueDate now s = (Inr task, s')"
  shows "actorId \<noteq> [] \<and> projectId \<noteq> [] \<and> title \<noteq> [] \<and>
     has_membership s actorId projectId \<and>
     (\<forall>a. assigneeId = Some a \<and> a \<noteq> [] \<longrightarrow> has_membership s a projectId) \<and>
     task = \<lparr>doc_id = fresh_id (next_id s), doc_data =
               \<lparr>t_projectId = projectId, t_title = title, t_description = description,
                t_status = ''todo'', t_assigneeId = assigneeId, t_dueDate = dueDate,
                t_createdAt = now, t_updatedAt = now\<rparr>\<rparr> \<and>
     tasks s' = tasks s @ [task] \<and>
     activity_logs s' = activity_logs s @
              [\<lparr>doc_id = fresh_id (Suc (next_id s)), doc_data =
                 \<lparr>l_projectId = projectId, l_actorId = actorId, l_entityType = ''task'',
                  l_entityId = doc_id task, l_action = ''create'', l_createdAt = now\<rparr>\<rparr>] \<and>
     projects s' = projects s \<and> project_members s' = project_members s \<and>
     next_id s' = Suc (Suc (next_id s)) \<and>
     trace s' = trace s @
        (ListDocuments ''project_members'', Served) #
        (if assigneeId = None \<or> assigneeId = Some [] then []
         else [(ListDocuments ''project_members'', Served)]) @
        [(CreateDocument ''tasks'', Served), (CreateDocument ''activity_logs'', Served)]"
  using assms
  by (auto simp: createTask_def isProjectMember_def promise_defs store_defs membership_filter
      split: if_splits option.splits)

lemma createTask_Inl:
  assumes "createTask actorId projectId title description assigneeId dueDate now s = (Inl e, s')"
  shows "activity_logs s' = activity_logs s"
  using assms
  by (auto simp: createTask_def isProjectMember_def promise_defs store_defs
      split: if_splits option.splits)

lemma assignTask_Inr:
  assumes "assignTask actorId taskId assigneeId now s = (Inr updated, s')"
  shows "\<exists>d. task_by_id s taskId = Some d \<and>
     updated = d\<lparr>doc_data := (doc_data d)\<lparr>t_assigneeId := Some assigneeId, t_updatedAt := now\<rparr>\<rparr> \<and>
     s' = s\<lparr>tasks := update_first taskId updated (tasks s),
            activity_logs := activity_logs s @
              [\<lparr>doc_id = fresh_id (next_id s), doc_data =
                 \<lparr>l_projectId = t_projectId (doc_data d), l_actorId = actorId,
                  l_entityType = ''task'', l_entityId = taskId, l_action = ''assign'',
                  l_createdAt = now\<rparr>\<rparr>],
            next_id := Suc (next_id s),
            faults := tl (tl (tl (tl (tl (faults s))))),
            trace := trace s @
              [(GetDocument ''tasks'' taskId, Served), (ListDocuments ''project_members'', Served),
               (ListDocuments ''project_members'', Served), (UpdateDocument ''tasks'' taskId, Served),
               (CreateDocument ''activity_logs'', Served)]\<rparr> \<and>
     actorId \<noteq> [] \<and> taskId \<noteq> [] \<and> assigneeId \<noteq> [] \<and>
     has_membership s actorId (t_projectId (doc_data d)) \<and>
     has_membership s assigneeId (t_projectId (doc_data d))"
  using assms
  by (auto simp: assignTask_def promise_defs store_defs task_by_id_def membership_filter
      isProjectMember_def split: if_splits option.splits)

lemma assignTask_Inl:
  assumes "assignTask actorId taskId assigneeId now s = (Inl e, s')"
  shows "activity_logs s' = activity_logs s"
  using assms
  by (auto simp: assignTask_def promise_defs store_defs isProjectMember_def
      split: if_splits option.splits)

lemma updateTaskStatus_Inr:
  assumes "updateTaskStatus actorId taskId status now s = (Inr updated, s')"
  shows "\<exists>d. task_by_id s taskId = Some d \<and>
     updated = d\<lparr>doc_data := (doc_data d)\<lparr>t_status := status, t_updatedAt := now\<rparr>\<rparr> \<and>
     s' = s\<lparr>tasks := update_first taskId updated (tasks s),
            activity_logs := activity_logs s @
              [\<lparr>doc_id = fresh_id (next_id s), doc_data =
                 \<lparr>l_projectId = t_projectId (doc_data d), l_actorId = actorId,
                  l_entityType = ''task'', l_entityId = taskId, l_action = ''status:'' @ status,
                  l_createdAt = now\<rparr>\<rparr>],
            next_id := Suc (next_id s),
            faults := tl (tl (tl (tl (faults s)))),
            trace := trace s @
              [(GetDocument ''tasks'' taskId, Served), (ListDocuments ''project_members'', Served),
               (UpdateDocument ''tasks'' taskId, Served),
               (CreateDocument ''activity_logs'', Served)]\<rparr> \<and>
     actorId \<noteq> [] \<and> taskId \<noteq> [] \<and> status \<in> {''todo'', ''doing'', ''done''} \<and>
     has_membership s actorId (t_projectId (doc_data d))"
  using assms
  by (auto simp: updateTaskStatus_def promise_defs store_defs task_by_id_def membership_filter
      isProjectMember_def split: if_splits option.splits)

lemma updateTaskStatus_Inl:
  assumes "updateTaskStatus actorId taskId status now s = (Inl e, s')"
  shows "activity_logs s' = activity_logs s"
  using assms
  by (auto simp: updateTaskStatus_def promise_defs store_defs isProjectMember_def
      split: if_splits option.splits)

lemma audited_createProject:
  "audited [CreateDocument ''projects'', CreateDocument ''project_members''] s
     (createProject ownerId name now s)"
proof (cases "createProject ownerId name now s")
  case (Pair r s')
  show ?thesis
  proof (cases r)
    case (Inl e)
    with Pair show ?thesis by (simp add: audited_def createProject_Inl)
  next
    case (Inr v)
    with Pair createProject_Inr[of ownerId name now s v s'] show ?thesis
      by (simp add: audited_def issued_def)
  qed
qed

lemma audited_addUserToProject:
  "audited [CreateDocument ''project_members''] s
     (addUserToProject projectId userId actorId now s)"
proof (cases "addUserToProject projectId userId actorId now s")
  case (Pair r s')
  show ?thesis
  proof (cases r)
    case (Inl e)
    with Pair show ?thesis by (simp add: audited_def addUserToProject_Inl)
  next
    case (Inr v)
    with Pair addUserToProject_Inr[of projectId userId actorId now s v s'] show ?thesis
      by (simp add: audited_def issued_def)
  qed
qed

lemma audited_createTask:
  "audited [CreateDocument ''tasks''] s
     (createTask actorId projectId title description assigneeId dueDate now s)"
proof (cases "createTask actorId projectId title description assigneeId dueDate now s")
  case (Pair r s')
  show ?thesis
  proof (cases r)
    case (Inl e)
    with Pair show ?thesis by (simp add: audited_def createTask_Inl)
  next
    case (Inr v)
    with Pair createTask_Inr[of actorId projectId title description assigneeId dueDate now s v s']
    show ?thesis
      by (simp add: audited_def issued_def)
  qed
qed

lemma audited_assignTask:
  "audited [UpdateDocument ''tasks'' taskId] s (assignTask actorId taskId assigneeId now s)"
proof (cases "assignTask actorId taskId assigneeId now s")
  case (Pair r s')
  show ?thesis
  proof (cases r)
    case (Inl e)
    with Pair show ?thesis by (simp add: audited_def assignTask_Inl)
  next
    case (Inr v)
    with Pair assignTask_Inr[of actorId taskId assigneeId now s v s'] show ?thesis
      by (auto simp add: audited_def issued_def)
  qed
qed

lemma audited_updateTaskStatus:
  "audited [UpdateDocument ''tasks'' taskId] s (updateTaskStatus actorId taskId status now s)"
proof (cases "updateTaskStatus actorId taskId status now s")
  case (Pair r s')
  show ?thesis
  proof (cases r)
    case (Inl e)
    with Pair show ?thesis by (simp add: audited_def updateTaskStatus_Inl)
  next
    case (Inr v)
    with Pair updateTaskStatus_Inr[of actorId taskId status now s v s'] show ?thesis
      by (auto simp add: audited_def issued_def)
  qed
qed

section \<open>The audit trail\<close>

text \<open>
  C1. Each of the five mutating operations (\<open>createProject\<close>, \<open>addUserToProject\<close>,
  \<open>createTask\<close>, \<open>assignTask\<close>, \<open>updateTaskStatus\<close>), started in any world and with any
  arguments, keeps the audit discipline: if it resolves, exactly one activity log entry
  has been appended, by a write issued after the served writes of the primary entities;
  if it rejects, the log is unchanged. In no case is an entry of the log updated or
  removed.
\<close>

theorem activity_log_discipline:
  "audited [CreateDocument ''projects'', CreateDocument ''project_members''] s
     (createProject ownerId name now s) \<and>
   audited [CreateDocument ''project_members''] s
     (addUserToProject projectId userId actorId now s) \<and>
   audited [CreateDocument ''tasks''] s
     (createTask actorId projectId title description assignee dueDate now s) \<and>
   audited [UpdateDocument ''tasks'' taskId] s (assignTask actorId taskId assigneeId now s) \<and>
   audited [UpdateDocument ''tasks'' taskId] s (updateTaskStatus actorId taskId status now s)"
  by (simp add: audited_createProject audited_addUserToProject audited_createTask
      audited_assignTask audited_updateTaskStatus)

theorem activity_log_discipline_witness:
  "fst (updateTaskStatus ''u1'' ''t1'' ''doing'' ''t9'' demo_world) =
     Inr \<lparr>doc_id = ''t1'', doc_data =
            \<lparr>t_projectId = ''p1'', t_title = ''Ship'', t_description = None,
             t_status = ''doing'', t_assigneeId = None, t_dueDate = None,
             t_createdAt = ''t0'', t_updatedAt = ''t9''\<rparr>\<rparr> \<and>
   length (activity_logs (snd (updateTaskStatus ''u1'' ''t1'' ''doing'' ''t9'' demo_world))) =
     Suc (length (activity_logs demo_world)) \<and>
   fst (createTask ''u9'' ''p1'' ''Plan'' None None None ''t9'' demo_world) =
     Inl (AuthorizationError ''actor is not a member of the project'') \<and>
   activity_logs (snd (createTask ''u9'' ''p1'' ''Plan'' None None None ''t9'' demo_world)) =
     activity_logs demo_world"
proof -
  have u: "updateTaskStatus ''u1'' ''t1'' ''doing'' ''t9'' demo_world =
     (Inr \<lparr>doc_id = ''t1'', doc_data =
            \<lparr>t_projectId = ''p1'', t_title = ''Ship'', t_description = None,
             t_status = ''doing'', t_assigneeId = None, t_dueDate = None,
             t_createdAt = ''t0'', t_updatedAt = ''t9''\<rparr>\<rparr>,
      snd (updateTaskStatus ''u1'' ''t1'' ''doing'' ''t9'' demo_world))"
    by (simp add: updateTaskStatus_def isProjectMember_def promise_defs store_defs demo_world_def
        fails_next_def)
  have c: "createTask ''u9'' ''p1'' ''Plan'' None None None ''t9'' demo_world =
     (Inl (AuthorizationError ''actor is not a member of the project''),
      snd (createTask ''u9'' ''p1'' ''Plan'' None None None ''t9'' demo_world))"
    by (simp add: createTask_def isProjectMember_def promise_defs store_defs demo_world_def
        fails_next_def)
  from u have 1: "fst (updateTaskStatus ''u1'' ''t1'' ''doing'' ''t9'' demo_world) =
     Inr \<lparr>doc_id = ''t1'', doc_data =
            \<lparr>t_projectId = ''p1'', t_title = ''Ship'', t_description = None,
             t_status = ''doing'', t_assigneeId = None, t_dueDate = None,
             t_createdAt = ''t0'', t_updatedAt = ''t9''\<rparr>\<rparr>"
    by (rule arg_cong [where f = fst, THEN trans]) simp
  from c have 3: "fst (createTask ''u9'' ''p1'' ''Plan'' None None None ''t9'' demo_world) =
     Inl (AuthorizationError ''actor is not a member of the project'')"
    by (rule arg_cong [where f = fst, THEN trans]) simp
  from activity_log_discipline
    [where s = demo_world and ownerId = "''u1''" and name = "''Launch''" and now = "''t9''"
       and projectId = "''p1''" and userId = "''u2''" and actorId = "''u1''"
       and title = "''Plan''" and description = None and assignee = None and dueDate = None
       and taskId = "''t1''" and assigneeId = "''u1''" and status = "''doing''"]
  have "audited [UpdateDocument ''tasks'' ''t1''] demo_world
          (updateTaskStatus ''u1'' ''t1'' ''doing'' ''t9'' demo_world)"
    by blast
  then have "audited [UpdateDocument ''tasks'' ''t1''] demo_world
     (Inr \<lparr>doc_id = ''t1'', doc_data =
            \<lparr>t_projectId = ''p1'', t_title = ''Ship'', t_description = None,
             t_status = ''doing'', t_assigneeId = None, t_dueDate = None,
             t_createdAt = ''t0'', t_updatedAt = ''t9''\<rparr>\<rparr>,
      snd (updateTaskStatus ''u1'' ''t1'' ''doing'' ''t9'' demo_world))"
    by (subst (asm) u)
  then have "activity_logs (snd (updateTaskStatus ''u1'' ''t1'' ''doing'' ''t9'' demo_world)) =
     activity_logs demo_world @
       [last (activity_logs (snd (updateTaskStatus ''u1'' ''t1'' ''doing'' ''t9'' demo_world)))]"
    by (simp add: audited_def)
  then have 2: "length (activity_logs (snd (updateTaskStatus ''u1'' ''t1'' ''doing'' ''t9'' demo_world))) =
     Suc (length (activity_logs demo_world))"
    by (rule arg_cong [where f = length, THEN trans]) simp
  from activity_log_discipline
    [where s = demo_world and ownerId = "''u1''" and name = "''Launch''" and now = "''t9''"
       and projectId = "''p1''" and userId = "''u2''" and actorId = "''u9''"
       and title = "''Plan''" and description = None and assignee = None and dueDate = None
       and taskId = "''t1''" and assigneeId = "''u1''" and status = "''doing''"]
  have "audited [CreateDocument ''tasks''] demo_world
          (createTask ''u9'' ''p1'' ''Plan'' None None None ''t9'' demo_world)"
    by blast
  then have "audited [CreateDocument ''tasks''] demo_world
     (Inl (AuthorizationError ''actor is not a member of the project'') :: error + Task CBDocument,
      snd (createTask ''u9'' ''p1'' ''Plan'' None None None ''t9'' demo_world))"
    by (subst (asm) c)
  then have 4: "activity_logs (snd (createTask ''u9'' ''p1'' ''Plan'' None None None ''t9'' demo_world)) =
     activity_logs demo_world"
    by (simp add: audited_def)
  show ?thesis by (intro conjI) (rule 1, rule 2, rule 3, rule 4)
qed

section \<open>Creating a project\<close>

text \<open>
  C2. With a non-empty \<open>ownerId\<close> and a non-empty \<open>name\<close>, and no request failing,
  \<open>createProject\<close> resolves to the created project \<open>{name, ownerId, createdAt}\<close>; the
  world it leaves has exactly that project appended, then the membership of the owner in
  it, then one log entry with action \<open>create\<close> and entity type \<open>project\<close>, written by
  three requests in that sequence, and nothing else changed. With an empty \<open>ownerId\<close> or
  an empty \<open>name\<close> it rejects with a ValidationError and the world, including the trace
  of calls, is untouched.
\<close>

theorem createProject_contract:
  "(ownerId \<noteq> [] \<and> name \<noteq> [] \<and> no_remote_failure s \<longrightarrow>
      createProject ownerId name now s =
        (Inr \<lparr>doc_id = fresh_id (next_id s), doc_data =
                \<lparr>p_name = name, p_ownerId = ownerId, p_createdAt = now\<rparr>\<rparr>,
         s\<lparr>projects := projects s @
              [\<lparr>doc_id = fresh_id (next_id s), doc_data =
                 \<lparr>p_name = name, p_ownerId = ownerId, p_createdAt = now\<rparr>\<rparr>],
           project_members := project_members s @
              [\<lparr>doc_id = fresh_id (Suc (next_id s)), doc_data =
                 \<lparr>m_projectId = fresh_id (next_id s), m_userId = ownerId, m_joinedAt = now\<rparr>\<rparr>],
           activity_logs := activity_logs s @
              [\<lparr>doc_id = fresh_id (Suc (Suc (next_id s))), doc_data =
                 \<lparr>l_projectId = fresh_id (next_id s), l_actorId = ownerId,
                  l_entityType = ''project'', l_entityId = fresh_id (next_id s),
                  l_action = ''create'', l_createdAt = now\<rparr>\<rparr>],
           next_id := Suc (Suc (Suc (next_id s))),
           faults := tl (tl (tl (faults s))),
           trace := trace s @
              [(CreateDocument ''projects'', Served), (CreateDocument ''project_members'', Served),
               (CreateDocument ''activity_logs'', Served)]\<rparr>)) \<and>
   (ownerId = [] \<or> name = [] \<longrightarrow>
      (\<exists>msg. createProject ownerId name now s = (Inl (ValidationError msg), s)))"
  by (auto simp: createProject_def promise_defs store_defs no_remote_failure_def quiet_tl
      quiet_next)

theorem createProject_contract_witness:
  "fst (createProject ''u1'' ''Launch'' ''t0'' empty_world) =
     Inr \<lparr>doc_id = fresh_id 0, doc_data =
            \<lparr>p_name = ''Launch'', p_ownerId = ''u1'', p_createdAt = ''t0''\<rparr>\<rparr> \<and>
   map doc_data (projects (snd (createProject ''u1'' ''Launch'' ''t0'' empty_world))) =
     [\<lparr>p_name = ''Launch'', p_ownerId = ''u1'', p_createdAt = ''t0''\<rparr>] \<and>
   map doc_data (project_members (snd (createProject ''u1'' ''Launch'' ''t0'' empty_world))) =
     [\<lparr>m_projectId = fresh_id 0, m_userId = ''u1'', m_joinedAt = ''t0''\<rparr>] \<and>
   map doc_data (activity_logs (snd (createProject ''u1'' ''Launch'' ''t0'' empty_world))) =
     [\<lparr>l_projectId = fresh_id 0, l_actorId = ''u1'', l_entityType = ''project'',
       l_entityId = fresh_id 0, l_action = ''create'', l_createdAt = ''t0''\<rparr>] \<and>
   (\<exists>msg. createProject [] ''Launch'' ''t0'' empty_world = (Inl (ValidationError msg), empty_world))"
  using createProject_contract [where ownerId = "''u1''" and name = "''Launch''" and now = "''t0''"
      and s = empty_world]
    createProject_contract [where ownerId = "[]" and name = "''Launch''" and now = "''t0''"
      and s = empty_world]
  by (simp add: empty_world_def no_remote_failure_def)

section \<open>Membership\<close>

lemma has_membership_mono:
  "has_membership s u p \<Longrightarrow> set (project_members s) \<subseteq> set (project_members w) \<Longrightarrow>
   has_membership w u p"
  by (auto simp: has_membership_def)

lemma isProjectMember_served:
  "\<not> fails_next (faults s) \<Longrightarrow>
   isProjectMember userId projectId s =
     (Inr (is_member s userId projectId),
      if userId = [] \<or> projectId = [] then s
      else s\<lparr>faults := tl (faults s),
             trace := trace s @ [(ListDocuments ''project_members'', Served)]\<rparr>)"
  by (auto simp: isProjectMember_def is_member_def promise_defs store_defs membership_filter)

lemma addUserToProject_conflict:
  assumes "projectId \<noteq> []" and "userId \<noteq> []" and "actorId \<noteq> []"
    and "has_membership s actorId projectId" and "has_membership s userId projectId"
    and "no_remote_failure s"
  shows "addUserToProject projectId userId actorId now s =
     (Inl (ConflictError ''user is already a member of the project''),
      s\<lparr>faults := tl (tl (faults s)),
        trace := trace s @ [(ListDocuments ''project_members'', Served),
                            (ListDocuments ''project_members'', Served)]\<rparr>)"
  using assms
  by (auto simp add: addUserToProject_def promise_defs store_defs membership_filter
      no_remote_failure_def quiet_tl quiet_next)

text \<open>
  C3. After \<open>addUserToProject projectId userId actorId\<close> has resolved, in every world
  \<open>w\<close> that still holds the membership rows it left (the service never removes one) and
  in which no request fails, \<open>isProjectMember userId projectId\<close> answers true, and a
  second \<open>addUserToProject\<close> for the same pair rejects with the ConflictError and writes
  nothing, when made by the same actor and, more generally, by any actor whom the
  membership policy accepts for the project.
\<close>

theorem addUserToProject_then_member_and_conflict:
  assumes ok: "addUserToProject projectId userId actorId now s = (Inr member, s')"
    and later: "set (project_members s') \<subseteq> set (project_members w)"
    and quiet: "no_remote_failure w"
  shows "fst (isProjectMember userId projectId w) = Inr True \<and>
         fst (addUserToProject projectId userId actorId now' w) =
           Inl (ConflictError ''user is already a member of the project'') \<and>
         documents (snd (addUserToProject projectId userId actorId now' w)) = documents w \<and>
         (\<forall>actor. is_member w actor projectId \<longrightarrow>
            fst (addUserToProject projectId userId actor now' w) =
              Inl (ConflictError ''user is already a member of the project''))"
proof -
  from addUserToProject_Inr [OF ok]
  have ne: "projectId \<noteq> []" "userId \<noteq> []" "actorId \<noteq> []"
    and actor: "has_membership s actorId projectId"
    and s': "project_members s' = project_members s @
       [\<lparr>doc_id = fresh_id (next_id s), doc_data =
           \<lparr>m_projectId = projectId, m_userId = userId, m_joinedAt = now\<rparr>\<rparr>]"
    by auto
  from s' have "has_membership s' userId projectId"
    by (simp add: has_membership_def)
  then have user_w: "has_membership w userId projectId"
    using later by (rule has_membership_mono)
  from actor s' have "has_membership s' actorId projectId"
    by (auto simp: has_membership_def)
  then have actor_w: "has_membership w actorId projectId"
    using later by (rule has_membership_mono)
  from quiet have "\<not> fails_next (faults w)"
    by (simp add: no_remote_failure_def quiet_next)
  then have 1: "fst (isProjectMember userId projectId w) = Inr True"
    using ne user_w by (simp add: isProjectMember_served is_member_def)
  from addUserToProject_conflict [OF ne actor_w user_w quiet, of now']
  have 2: "fst (addUserToProject projectId userId actorId now' w) =
           Inl (ConflictError ''user is already a member of the project'')"
    and 3: "documents (snd (addUserToProject projectId userId actorId now' w)) = documents w"
    by (simp_all add: documents_def)
  have 4: "\<forall>actor. is_member w actor projectId \<longrightarrow>
            fst (addUserToProject projectId userId actor now' w) =
              Inl (ConflictError ''user is already a member of the project'')"
  proof (intro allI impI)
    fix actor
    assume "is_member w actor projectId"
    then have "actor \<noteq> []" "has_membership w actor projectId"
      by (simp_all add: is_member_def)
    from addUserToProject_conflict [OF ne(1,2) this user_w quiet, of now']
    show "fst (addUserToProject projectId userId actor now' w) =
              Inl (ConflictError ''user is already a member of the project'')"
      by simp
  qed
  show ?thesis by (intro conjI) (rule 1, rule 2, rule 3, rule 4)
qed

theorem addUserToProject_then_member_and_conflict_witness:
  "addUserToProject ''p1'' ''u2'' ''u1'' ''t1'' demo_world =
     (Inr \<lparr>doc_id = fresh_id 7, doc_data =
             \<lparr>m_projectId = ''p1'', m_userId = ''u2'', m_joinedAt = ''t1''\<rparr>\<rparr>,
      snd (addUserToProject ''p1'' ''u2'' ''u1'' ''t1'' demo_world)) \<and>
   no_remote_failure (snd (addUserToProject ''p1'' ''u2'' ''u1'' ''t1'' demo_world)) \<and>
   fst (isProjectMember ''u2'' ''p1'' (snd (addUserToProject ''p1'' ''u2'' ''u1'' ''t1'' demo_world)))
     = Inr True \<and>
   fst (addUserToProject ''p1'' ''u2'' ''u1'' ''t2''
          (snd (addUserToProject ''p1'' ''u2'' ''u1'' ''t1'' demo_world))) =
     Inl (ConflictError ''user is already a member of the project'')"
proof -
  have run: "addUserToProject ''p1'' ''u2'' ''u1'' ''t1'' demo_world =
     (Inr \<lparr>doc_id = fresh_id 7, doc_data =
             \<lparr>m_projectId = ''p1'', m_userId = ''u2'', m_joinedAt = ''t1''\<rparr>\<rparr>,
      snd (addUserToProject ''p1'' ''u2'' ''u1'' ''t1'' demo_world))"
    by (simp add: addUserToProject_def promise_defs store_defs demo_world_def fails_next_def)
  have quiet: "no_remote_failure (snd (addUserToProject ''p1'' ''u2'' ''u1'' ''t1'' demo_world))"
    by (simp add: addUserToProject_def promise_defs store_defs demo_world_def fails_next_def
        no_remote_failure_def)
  from addUserToProject_then_member_and_conflict [OF run subset_refl quiet, of "''t2''"]
  show ?thesis using run quiet by simp
qed

text \<open>
  C10. For non-empty arguments with \<open>userId\<close> already a member and no request failing:
  if the actor has no membership the call rejects with the AuthorizationError after the
  single lookup of the actor, before the duplicate check is made; only an actor who is a
  member gets the ConflictError, after both lookups. Neither rejection writes a
  document: the worlds differ from the start only in the trace of calls.
\<close>

theorem addUserToProject_check_order:
  assumes "projectId \<noteq> []" and "userId \<noteq> []" and "actorId \<noteq> []"
    and "has_membership s userId projectId"
    and "no_remote_failure s"
  shows "addUserToProject projectId userId actorId now s =
     (if has_membership s actorId projectId
      then (Inl (ConflictError ''user is already a member of the project''),
            s\<lparr>faults := tl (tl (faults s)),
              trace := trace s @ [(ListDocuments ''project_members'', Served),
                                  (ListDocuments ''project_members'', Served)]\<rparr>)
      else (Inl (AuthorizationError ''actor is not a member of the project''),
            s\<lparr>faults := tl (faults s),
              trace := trace s @ [(ListDocuments ''project_members'', Served)]\<rparr>))"
  using assms
  by (auto simp add: addUserToProject_def promise_defs store_defs membership_filter
      no_remote_failure_def quiet_tl quiet_next)

theorem addUserToProject_check_order_witness:
  "has_membership demo_world ''u1'' ''p1'' \<and> no_remote_failure demo_world \<and>
   \<not> has_membership demo_world ''u9'' ''p1'' \<and>
   addUserToProject ''p1'' ''u1'' ''u9'' ''t9'' demo_world =
     (Inl (AuthorizationError ''actor is not a member of the project''),
      demo_world\<lparr>trace := [(ListDocuments ''project_members'', Served)]\<rparr>)"
proof -
  have m: "has_membership demo_world ''u1'' ''p1''"
    by (simp add: has_membership_def demo_world_def)
  have n: "\<not> has_membership demo_world ''u9'' ''p1''"
    by (simp add: has_membership_def demo_world_def)
  have q: "no_remote_failure demo_world"
    by (simp add: no_remote_failure_def demo_world_def)
  from addUserToProject_check_order [OF _ _ _ m q, of "''u9''" "''t9''"]
  show ?thesis using m n q by (simp add: demo_world_def)
qed

section \<open>Creating a task\<close>

text \<open>
  C4. With non-empty \<open>actorId\<close>, \<open>projectId\<close> and \<open>title\<close>, an actor without a
  membership record for the project, and the membership lookup served, \<open>createTask\<close>
  rejects with the AuthorizationError; the world it leaves differs from the start only by
  that one lookup, so no task and no log entry is created.
\<close>

theorem createTask_actor_not_member:
  assumes "actorId \<noteq> []" and "projectId \<noteq> []" and "title \<noteq> []"
    and "\<not> has_membership s actorId projectId"
    and "\<not> fails_next (faults s)"
  shows "createTask actorId projectId title description assigneeId dueDate now s =
     (Inl (AuthorizationError ''actor is not a member of the project''),
      s\<lparr>faults := tl (faults s),
        trace := trace s @ [(ListDocuments ''project_members'', Served)]\<rparr>)"
  using assms
  by (simp add: createTask_def isProjectMember_def promise_defs store_defs membership_filter)

theorem createTask_actor_not_member_witness:
  "\<not> has_membership demo_world ''u9'' ''p1'' \<and>
   \<not> fails_next (faults demo_world) \<and>
   createTask ''u9'' ''p1'' ''Plan'' None (Some ''u1'') None ''t9'' demo_world =
     (Inl (AuthorizationError ''actor is not a member of the project''),
      demo_world\<lparr>trace := [(ListDocuments ''project_members'', Served)]\<rparr>)"
proof -
  have m: "\<not> has_membership demo_world ''u9'' ''p1''"
    by (simp add: has_membership_def demo_world_def)
  have f: "\<not> fails_next (faults demo_world)"
    by (simp add: fails_next_def demo_world_def)
  from createTask_actor_not_member [OF _ _ _ m f, of "''Plan''" None "Some ''u1''" None "''t9''"]
  show ?thesis using m f by (simp add: demo_world_def)
qed

text \<open>
  C5, as stated, fails: the claim covers every provided \<open>assigneeId\<close>, whatever string
  it is. The empty string is provided and has no membership record, yet the guard
  \<^verbatim>\<open>if (assigneeId)\<close> skips the check for it and the task is created.
\<close>

theorem createTask_empty_assignee_counterexample:
  "\<not> has_membership demo_world [] ''p1'' \<and>
   fst (createTask ''u1'' ''p1'' ''Plan'' None (Some []) None ''t9'' demo_world) =
     Inr \<lparr>doc_id = fresh_id 7, doc_data =
            \<lparr>t_projectId = ''p1'', t_title = ''Plan'', t_description = None,
             t_status = ''todo'', t_assigneeId = Some [], t_dueDate = None,
             t_createdAt = ''t9'', t_updatedAt = ''t9''\<rparr>\<rparr> \<and>
   length (tasks (snd (createTask ''u1'' ''p1'' ''Plan'' None (Some []) None ''t9'' demo_world)))
     = Suc (length (tasks demo_world))"
  by (simp add: createTask_def isProjectMember_def promise_defs store_defs demo_world_def
      fails_next_def has_membership_def)

text \<open>
  C5, amended. With non-empty \<open>actorId\<close>, \<open>projectId\<close> and \<open>title\<close>, a provided
  non-empty \<open>assigneeId\<close> without a membership record for the project and no request
  failing, \<open>createTask\<close> rejects with an AuthorizationError (that of the assignee when
  the actor is a member, that of the actor otherwise) and writes nothing: the world
  differs from the start only by the lookups.
\<close>

theorem createTask_assignee_not_member:
  assumes "actorId \<noteq> []" and "projectId \<noteq> []" and "title \<noteq> []"
    and "assignee \<noteq> []"
    and "\<not> has_membership s assignee projectId"
    and "no_remote_failure s"
  shows "createTask actorId projectId title description (Some assignee) dueDate now s =
     (if has_membership s actorId projectId
      then (Inl (AuthorizationError ''assignee is not a member of the project''),
            s\<lparr>faults := tl (tl (faults s)),
              trace := trace s @ [(ListDocuments ''project_members'', Served),
                                  (ListDocuments ''project_members'', Served)]\<rparr>)
      else (Inl (AuthorizationError ''actor is not a member of the project''),
            s\<lparr>faults := tl (faults s),
              trace := trace s @ [(ListDocuments ''project_members'', Served)]\<rparr>))"
  using assms
  by (auto simp add: createTask_def isProjectMember_def promise_defs store_defs membership_filter
      no_remote_failure_def quiet_tl quiet_next)

theorem createTask_assignee_not_member_witness:
  "\<not> has_membership demo_world ''u7'' ''p1'' \<and> no_remote_failure demo_world \<and>
   has_membership demo_world ''u1'' ''p1'' \<and>
   createTask ''u1'' ''p1'' ''Plan'' None (Some ''u7'') None ''t9'' demo_world =
     (Inl (AuthorizationError ''assignee is not a member of the project''),
      demo_world\<lparr>trace := [(ListDocuments ''project_members'', Served),
                            (ListDocuments ''project_members'', Served)]\<rparr>)"
proof -
  have m: "has_membership demo_world ''u1'' ''p1''"
    by (simp add: has_membership_def demo_world_def)
  have n: "\<not> has_membership demo_world ''u7'' ''p1''"
    by (simp add: has_membership_def demo_world_def)
  have q: "no_remote_failure demo_world"
    by (simp add: no_remote_failure_def demo_world_def)
  from createTask_assignee_not_member [OF _ _ _ _ n q, of "''u1''" "''Plan''" None None "''t9''"]
  show ?thesis using m n q by (simp add: demo_world_def)
qed

section \<open>Updating a task\<close>

text \<open>
  C6. For a task \<open>d\<close> stored under a non-empty \<open>taskId\<close> (the store issues no empty
  id), an actor whom the membership policy accepts for the project of the task, any
  \<open>status\<close> among \<open>todo\<close>, \<open>doing\<close>, \<open>done\<close> and no request failing,
  \<open>updateTaskStatus\<close> resolves whatever the current status of the task is: the task gets
  the given status and \<open>updatedAt\<close>, and one log entry with action
  \<open>status:\<close> followed by the status is appended. For every other status string it
  rejects with a ValidationError, whatever the other arguments are, without a call to the
  store: the world is untouched.
\<close>

theorem updateTaskStatus_contract:
  "(taskId \<noteq> [] \<and> status \<in> {''todo'', ''doing'', ''done''} \<and> task_by_id s taskId = Some d \<and>
    is_member s actorId (t_projectId (doc_data d)) \<and> no_remote_failure s \<longrightarrow>
      updateTaskStatus actorId taskId status now s =
        (Inr (d\<lparr>doc_data := (doc_data d)\<lparr>t_status := status, t_updatedAt := now\<rparr>\<rparr>),
         s\<lparr>tasks := update_first taskId
                (d\<lparr>doc_data := (doc_data d)\<lparr>t_status := status, t_updatedAt := now\<rparr>\<rparr>) (tasks s),
           activity_logs := activity_logs s @
              [\<lparr>doc_id = fresh_id (next_id s), doc_data =
                 \<lparr>l_projectId = t_projectId (doc_data d), l_actorId = actorId,
                  l_entityType = ''task'', l_entityId = taskId, l_action = ''status:'' @ status,
                  l_createdAt = now\<rparr>\<rparr>],
           next_id := Suc (next_id s),
           faults := tl (tl (tl (tl (faults s)))),
           trace := trace s @
              [(GetDocument ''tasks'' taskId, Served), (ListDocuments ''project_members'', Served),
               (UpdateDocument ''tasks'' taskId, Served),
               (CreateDocument ''activity_logs'', Served)]\<rparr>)) \<and>
   (status \<notin> {''todo'', ''doing'', ''done''} \<longrightarrow>
      (\<exists>msg. updateTaskStatus actorId taskId status now s = (Inl (ValidationError msg), s)))"
  by (auto simp: updateTaskStatus_def isProjectMember_def is_member_def task_by_id_def
      promise_defs store_defs membership_filter no_remote_failure_def quiet_tl quiet_next)

theorem updateTaskStatus_contract_witness:
  "task_by_id demo_world ''t1'' =
     Some \<lparr>doc_id = ''t1'', doc_data =
             \<lparr>t_projectId = ''p1'', t_title = ''Ship'', t_description = None,
              t_status = ''done'', t_assigneeId = None, t_dueDate = None,
              t_createdAt = ''t0'', t_updatedAt = ''t0''\<rparr>\<rparr> \<and>
   is_member demo_world ''u1'' ''p1'' \<and>
   fst (updateTaskStatus ''u1'' ''t1'' ''todo'' ''t9'' demo_world) =
     Inr \<lparr>doc_id = ''t1'', doc_data =
            \<lparr>t_projectId = ''p1'', t_title = ''Ship'', t_description = None,
             t_status = ''todo'', t_assigneeId = None, t_dueDate = None,
             t_createdAt = ''t0'', t_updatedAt = ''t9''\<rparr>\<rparr> \<and>
   map (l_action \<circ> doc_data)
     (activity_logs (snd (updateTaskStatus ''u1'' ''t1'' ''todo'' ''t9'' demo_world))) =
     [''status:todo''] \<and>
   (\<exists>msg. updateTaskStatus ''u1'' ''t1'' ''blocked'' ''t9'' demo_world =
      (Inl (ValidationError msg), demo_world))"
proof -
  have t: "task_by_id demo_world ''t1'' =
     Some \<lparr>doc_id = ''t1'', doc_data =
             \<lparr>t_projectId = ''p1'', t_title = ''Ship'', t_description = None,
              t_status = ''done'', t_assigneeId = None, t_dueDate = None,
              t_createdAt = ''t0'', t_updatedAt = ''t0''\<rparr>\<rparr>"
    by (simp add: task_by_id_def demo_world_def)
  have m: "is_member demo_world ''u1'' ''p1''"
    by (simp add: is_member_def has_membership_def demo_world_def)
  have q: "no_remote_failure demo_world"
    by (simp add: no_remote_failure_def demo_world_def)
  from updateTaskStatus_contract [where taskId = "''t1''" and status = "''todo''"
      and s = demo_world and actorId = "''u1''" and now = "''t9''"
      and d = "\<lparr>doc_id = ''t1'', doc_data =
             \<lparr>t_projectId = ''p1'', t_title = ''Ship'', t_description = None,
              t_status = ''done'', t_assigneeId = None, t_dueDate = None,
              t_createdAt = ''t0'', t_updatedAt = ''t0''\<rparr>\<rparr>"]
    updateTaskStatus_contract [where taskId = "''t1''" and status = "''blocked''"
      and s = demo_world and actorId = "''u1''" and now = "''t9''"]
  show ?thesis using t m q by (simp add: demo_world_def)
qed

lemma find_by_id_Some: "find (\<lambda>x. doc_id x = i) ds = Some d \<Longrightarrow> doc_id d = i"
  by (induction ds) (auto split: if_splits)

lemma find_update_first_same:
  "find (\<lambda>x. doc_id x = i) ds = Some d \<Longrightarrow> doc_id d' = i \<Longrightarrow>
   find (\<lambda>x. doc_id x = i) (update_first i d' ds) = Some d'"
  by (induction ds) (auto split: if_splits)

lemma find_update_first_other:
  "j \<noteq> i \<Longrightarrow> doc_id d' = i \<Longrightarrow>
   find (\<lambda>x. doc_id x = j) (update_first i d' ds) = find (\<lambda>x. doc_id x = j) ds"
  by (induction ds) auto

lemma assignTask_Inr_task:
  assumes "assignTask actorId taskId assigneeId now s = (Inr updated, s')"
    and "task_by_id s taskId = Some d"
  shows "updated = d\<lparr>doc_data := (doc_data d)\<lparr>t_assigneeId := Some assigneeId, t_updatedAt := now\<rparr>\<rparr> \<and>
     tasks s' = update_first taskId updated (tasks s)"
  using assignTask_Inr [OF assms(1)] assms(2)
  by (elim exE conjE) simp

lemma updateTaskStatus_Inr_task:
  assumes "updateTaskStatus actorId taskId status now s = (Inr updated, s')"
    and "task_by_id s taskId = Some d"
  shows "updated = d\<lparr>doc_data := (doc_data d)\<lparr>t_status := status, t_updatedAt := now\<rparr>\<rparr> \<and>
     tasks s' = update_first taskId updated (tasks s)"
  using updateTaskStatus_Inr [OF assms(1)] assms(2)
  by (elim exE conjE) simp

lemma assignTask_frame:
  assumes d: "task_by_id s taskId = Some d"
    and run: "assignTask actorId taskId assigneeId now s = (Inr updated, s')"
  shows "updated = d\<lparr>doc_data := (doc_data d)\<lparr>t_assigneeId := Some assigneeId, t_updatedAt := now\<rparr>\<rparr> \<and>
      task_by_id s' taskId = Some updated \<and>
      (\<forall>i. i \<noteq> taskId \<longrightarrow> task_by_id s' i = task_by_id s i)"
proof -
  from d have id: "doc_id d = taskId"
    unfolding task_by_id_def by (rule find_by_id_Some)
  from assignTask_Inr_task [OF run d]
  have u: "updated = d\<lparr>doc_data := (doc_data d)\<lparr>t_assigneeId := Some assigneeId, t_updatedAt := now\<rparr>\<rparr>"
    and t: "tasks s' = update_first taskId updated (tasks s)"
    by simp_all
  from u id have uid: "doc_id updated = taskId" by simp
  from d have "find (\<lambda>x. doc_id x = taskId) (tasks s) = Some d"
    by (simp add: task_by_id_def)
  from find_update_first_same [OF this uid]
  have same: "task_by_id s' taskId = Some updated"
    by (simp add: task_by_id_def t)
  have other: "\<forall>i. i \<noteq> taskId \<longrightarrow> task_by_id s' i = task_by_id s i"
    by (simp add: task_by_id_def t find_update_first_other [OF _ uid])
  show ?thesis by (intro conjI) (rule u, rule same, rule other)
qed

lemma updateTaskStatus_frame:
  assumes d: "task_by_id s taskId = Some d"
    and run: "updateTaskStatus actorId taskId status now s = (Inr updated, s')"
  shows "updated = d\<lparr>doc_data := (doc_data d)\<lparr>t_status := status, t_updatedAt := now\<rparr>\<rparr> \<and>
      task_by_id s' taskId = Some updated \<and>
      (\<forall>i. i \<noteq> taskId \<longrightarrow> task_by_id s' i = task_by_id s i)"
proof -
  from d have id: "doc_id d = taskId"
    unfolding task_by_id_def by (rule find_by_id_Some)
  from updateTaskStatus_Inr_task [OF run d]
  have u: "updated = d\<lparr>doc_data := (doc_data d)\<lparr>t_status := status, t_updatedAt := now\<rparr>\<rparr>"
    and t: "tasks s' = update_first taskId updated (tasks s)"
    by simp_all
  from u id have uid: "doc_id updated = taskId" by simp
  from d have "find (\<lambda>x. doc_id x = taskId) (tasks s) = Some d"
    by (simp add: task_by_id_def)
  from find_update_first_same [OF this uid]
  have same: "task_by_id s' taskId = Some updated"
    by (simp add: task_by_id_def t)
  have other: "\<forall>i. i \<noteq> taskId \<longrightarrow> task_by_id s' i = task_by_id s i"
    by (simp add: task_by_id_def t find_update_first_other [OF _ uid])
  show ?thesis by (intro conjI) (rule u, rule same, rule other)
qed

text \<open>
  C9. When \<open>assignTask\<close> resolves on an existing task \<open>d\<close>, the task it returns and
  stores is \<open>d\<close> with \<open>assigneeId\<close> and \<open>updatedAt\<close> replaced: id, \<open>projectId\<close>,
  \<open>title\<close>, \<open>description\<close>, \<open>status\<close>, \<open>dueDate\<close> and \<open>createdAt\<close> are those of
  \<open>d\<close>, and every other task is as it was. Likewise for \<open>updateTaskStatus\<close>, with
  \<open>status\<close> and \<open>updatedAt\<close> replaced and \<open>assigneeId\<close> kept.
\<close>

theorem task_updates_frame:
  "(task_by_id s taskId = Some d \<and>
    assignTask actorId taskId assigneeId now s = (Inr updated, s') \<longrightarrow>
      updated = d\<lparr>doc_data := (doc_data d)\<lparr>t_assigneeId := Some assigneeId, t_updatedAt := now\<rparr>\<rparr> \<and>
      doc_id updated = doc_id d \<and>
      t_projectId (doc_data updated) = t_projectId (doc_data d) \<and>
      t_title (doc_data updated) = t_title (doc_data d) \<and>
      t_description (doc_data updated) = t_description (doc_data d) \<and>
      t_status (doc_data updated) = t_status (doc_data d) \<and>
      t_dueDate (doc_data updated) = t_dueDate (doc_data d) \<and>
      t_createdAt (doc_data updated) = t_createdAt (doc_data d) \<and>
      task_by_id s' taskId = Some updated \<and>
      (\<forall>i. i \<noteq> taskId \<longrightarrow> task_by_id s' i = task_by_id s i)) \<and>
   (task_by_id s taskId = Some d \<and>
    updateTaskStatus actorId taskId status now s = (Inr updated, s') \<longrightarrow>
      updated = d\<lparr>doc_data := (doc_data d)\<lparr>t_status := status, t_updatedAt := now\<rparr>\<rparr> \<and>
      doc_id updated = doc_id d \<and>
      t_projectId (doc_data updated) = t_projectId (doc_data d) \<and>
      t_title (doc_data updated) = t_title (doc_data d) \<and>
      t_description (doc_data updated) = t_description (doc_data d) \<and>
      t_assigneeId (doc_data updated) = t_assigneeId (doc_data d) \<and>
      t_dueDate (doc_data updated) = t_dueDate (doc_data d) \<and>
      t_createdAt (doc_data updated) = t_createdAt (doc_data d) \<and>
      task_by_id s' taskId = Some updated \<and>
      (\<forall>i. i \<noteq> taskId \<longrightarrow> task_by_id s' i = task_by_id s i))"
proof (rule conjI; rule impI)
  assume h: "task_by_id s taskId = Some d \<and>
    assignTask actorId taskId assigneeId now s = (Inr updated, s')"
  from assignTask_frame [of s taskId d actorId assigneeId now updated s'] h
  have u: "updated = d\<lparr>doc_data := (doc_data d)\<lparr>t_assigneeId := Some assigneeId, t_updatedAt := now\<rparr>\<rparr>"
    and same: "task_by_id s' taskId = Some updated"
    and other: "\<forall>i. i \<noteq> taskId \<longrightarrow> task_by_id s' i = task_by_id s i"
    by simp_all
  have fields: "doc_id updated = doc_id d \<and>
      t_projectId (doc_data updated) = t_projectId (doc_data d) \<and>
      t_title (doc_data updated) = t_title (doc_data d) \<and>
      t_description (doc_data updated) = t_description (doc_data d) \<and>
      t_status (doc_data updated) = t_status (doc_data d) \<and>
      t_dueDate (doc_data updated) = t_dueDate (doc_data d) \<and>
      t_createdAt (doc_data updated) = t_createdAt (doc_data d)"
    by (simp add: u)
  from u fields same other
  show "updated = d\<lparr>doc_data := (doc_data d)\<lparr>t_assigneeId := Some assigneeId, t_updatedAt := now\<rparr>\<rparr> \<and>
      doc_id updated = doc_id d \<and>
      t_projectId (doc_data updated) = t_projectId (doc_data d) \<and>
      t_title (doc_data updated) = t_title (doc_data d) \<and>
      t_description (doc_data updated) = t_description (doc_data d) \<and>
      t_status (doc_data updated) = t_status (doc_data d) \<and>
      t_dueDate (doc_data updated) = t_dueDate (doc_data d) \<and>
      t_createdAt (doc_data updated) = t_createdAt (doc_data d) \<and>
      task_by_id s' taskId = Some updated \<and>
      (\<forall>i. i \<noteq> taskId \<longrightarrow> task_by_id s' i = task_by_id s i)"
    by (intro conjI) (elim conjE, assumption)+
next
  assume h: "task_by_id s taskId = Some d \<and>
    updateTaskStatus actorId taskId status now s = (Inr updated, s')"
  from updateTaskStatus_frame [of s taskId d actorId status now updated s'] h
  have u: "updated = d\<lparr>doc_data := (doc_data d)\<lparr>t_status := status, t_updatedAt := now\<rparr>\<rparr>"
    and same: "task_by_id s' taskId = Some updated"
    and other: "\<forall>i. i \<noteq> taskId \<longrightarrow> task_by_id s' i = task_by_id s i"
    by simp_all
  have fields: "doc_id updated = doc_id d \<and>
      t_projectId (doc_data updated) = t_projectId (doc_data d) \<and>
      t_title (doc_data updated) = t_title (doc_data d) \<and>
      t_description (doc_data updated) = t_description (doc_data d) \<and>
      t_assigneeId (doc_data updated) = t_assigneeId (doc_data d) \<and>
      t_dueDate (doc_data updated) = t_dueDate (doc_data d) \<and>
      t_createdAt (doc_data updated) = t_createdAt (doc_data d)"
    by (simp add: u)
  from u fields same other
  show "updated = d\<lparr>doc_data := (doc_data d)\<lparr>t_status := status, t_updatedAt := now\<rparr>\<rparr> \<and>
      doc_id updated = doc_id d \<and>
      t_projectId (doc_data updated) = t_projectId (doc_data d) \<and>
      t_title (doc_data updated) = t_title (doc_data d) \<and>
      t_description (doc_data updated) = t_description (doc_data d) \<and>
      t_assigneeId (doc_data updated) = t_assigneeId (doc_data d) \<and>
      t_dueDate (doc_data updated) = t_dueDate (doc_data d) \<and>
      t_createdAt (doc_data updated) = t_createdAt (doc_data d) \<and>
      task_by_id s' taskId = Some updated \<and>
      (\<forall>i. i \<noteq> taskId \<longrightarrow> task_by_id s' i = task_by_id s i)"
    by (intro conjI) (elim conjE, assumption)+
qed

theorem task_updates_frame_witness:
  "task_by_id demo_world ''t1'' =
     Some \<lparr>doc_id = ''t1'', doc_data =
             \<lparr>t_projectId = ''p1'', t_title = ''Ship'', t_description = None,
              t_status = ''done'', t_assigneeId = None, t_dueDate = None,
              t_createdAt = ''t0'', t_updatedAt = ''t0''\<rparr>\<rparr> \<and>
   fst (assignTask ''u1'' ''t1'' ''u1'' ''t9'' demo_world) =
     Inr \<lparr>doc_id = ''t1'', doc_data =
            \<lparr>t_projectId = ''p1'', t_title = ''Ship'', t_description = None,
             t_status = ''done'', t_assigneeId = Some ''u1'', t_dueDate = None,
             t_createdAt = ''t0'', t_updatedAt = ''t9''\<rparr>\<rparr> \<and>
   task_by_id (snd (assignTask ''u1'' ''t1'' ''u1'' ''t9'' demo_world)) ''t1'' =
     Some \<lparr>doc_id = ''t1'', doc_data =
            \<lparr>t_projectId = ''p1'', t_title = ''Ship'', t_description = None,
             t_status = ''done'', t_assigneeId = Some ''u1'', t_dueDate = None,
             t_createdAt = ''t0'', t_updatedAt = ''t9''\<rparr>\<rparr> \<and>
   fst (updateTaskStatus ''u1'' ''t1'' ''doing'' ''t9'' demo_world) =
     Inr \<lparr>doc_id = ''t1'', doc_data =
            \<lparr>t_projectId = ''p1'', t_title = ''Ship'', t_description = None,
             t_status = ''doing'', t_assigneeId = None, t_dueDate = None,
             t_createdAt = ''t0'', t_updatedAt = ''t9''\<rparr>\<rparr> \<and>
   task_by_id (snd (updateTaskStatus ''u1'' ''t1'' ''doing'' ''t9'' demo_world)) ''t1'' =
     Some \<lparr>doc_id = ''t1'', doc_data =
            \<lparr>t_projectId = ''p1'', t_title = ''Ship'', t_description = None,
             t_status = ''doing'', t_assigneeId = None, t_dueDate = None,
             t_createdAt = ''t0'', t_updatedAt = ''t9''\<rparr>\<rparr>"
proof -
  have t: "task_by_id demo_world ''t1'' =
     Some \<lparr>doc_id = ''t1'', doc_data =
             \<lparr>t_projectId = ''p1'', t_title = ''Ship'', t_description = None,
              t_status = ''done'', t_assigneeId = None, t_dueDate = None,
              t_createdAt = ''t0'', t_updatedAt = ''t0''\<rparr>\<rparr>"
    by (simp add: task_by_id_def demo_world_def)
  have a: "assignTask ''u1'' ''t1'' ''u1'' ''t9'' demo_world =
     (Inr \<lparr>doc_id = ''t1'', doc_data =
            \<lparr>t_projectId = ''p1'', t_title = ''Ship'', t_description = None,
             t_status = ''done'', t_assigneeId = Some ''u1'', t_dueDate = None,
             t_createdAt = ''t0'', t_updatedAt = ''t9''\<rparr>\<rparr>,
      snd (assignTask ''u1'' ''t1'' ''u1'' ''t9'' demo_world))"
    by (simp add: assignTask_def isProjectMember_def promise_defs store_defs demo_world_def
        fails_next_def)
  have u: "updateTaskStatus ''u1'' ''t1'' ''doing'' ''t9'' demo_world =
     (Inr \<lparr>doc_id = ''t1'', doc_data =
            \<lparr>t_projectId = ''p1'', t_title = ''Ship'', t_description = None,
             t_status = ''doing'', t_assigneeId = None, t_dueDate = None,
             t_createdAt = ''t0'', t_updatedAt = ''t9''\<rparr>\<rparr>,
      snd (updateTaskStatus ''u1'' ''t1'' ''doing'' ''t9'' demo_world))"
    by (simp add: updateTaskStatus_def isProjectMember_def promise_defs store_defs demo_world_def
        fails_next_def)
  from a have a1: "fst (assignTask ''u1'' ''t1'' ''u1'' ''t9'' demo_world) =
     Inr \<lparr>doc_id = ''t1'', doc_data =
            \<lparr>t_projectId = ''p1'', t_title = ''Ship'', t_description = None,
             t_status = ''done'', t_assigneeId = Some ''u1'', t_dueDate = None,
             t_createdAt = ''t0'', t_updatedAt = ''t9''\<rparr>\<rparr>"
    by (rule arg_cong [where f = fst, THEN trans]) simp
  from u have u1: "fst (updateTaskStatus ''u1'' ''t1'' ''doing'' ''t9'' demo_world) =
     Inr \<lparr>doc_id = ''t1'', doc_data =
            \<lparr>t_projectId = ''p1'', t_title = ''Ship'', t_description = None,
             t_status = ''doing'', t_assigneeId = None, t_dueDate = None,
             t_createdAt = ''t0'', t_updatedAt = ''t9''\<rparr>\<rparr>"
    by (rule arg_cong [where f = fst, THEN trans]) simp
  from task_updates_frame [THEN conjunct1, rule_format, OF conjI, OF t a]
  have a2: "task_by_id (snd (assignTask ''u1'' ''t1'' ''u1'' ''t9'' demo_world)) ''t1'' =
     Some \<lparr>doc_id = ''t1'', doc_data =
            \<lparr>t_projectId = ''p1'', t_title = ''Ship'', t_description = None,
             t_status = ''done'', t_assigneeId = Some ''u1'', t_dueDate = None,
             t_createdAt = ''t0'', t_updatedAt = ''t9''\<rparr>\<rparr>"
    by simp
  from task_updates_frame [THEN conjunct2, rule_format, OF conjI, OF t u]
  have u2: "task_by_id (snd (updateTaskStatus ''u1'' ''t1'' ''doing'' ''t9'' demo_world)) ''t1'' =
     Some \<lparr>doc_id = ''t1'', doc_data =
            \<lparr>t_projectId = ''p1'', t_title = ''Ship'', t_description = None,
             t_status = ''doing'', t_assigneeId = None, t_dueDate = None,
             t_createdAt = ''t0'', t_updatedAt = ''t9''\<rparr>\<rparr>"
    by simp
  show ?thesis by (intro conjI) (rule t, rule a1, rule a2, rule u1, rule u2)
qed

section \<open>Listing the projects of a user\<close>

lemma getDocument_projects:
  "getDocument projects_c i s =
     (if fails_next (faults s) then
        (Inl (RemoteError ''request failed''),
         s\<lparr>faults := tl (faults s),
           trace := trace s @ [(GetDocument ''projects'' i, Failed (RemoteError ''request failed''))]\<rparr>)
      else case project_by_id s i of
        None \<Rightarrow>
          (Inl (NotFoundError ''document not found''),
           s\<lparr>faults := tl (faults s),
             trace := trace s @
               [(GetDocument ''projects'' i, Failed (NotFoundError ''document not found''))]\<rparr>)
      | Some d \<Rightarrow>
          (Inr d, s\<lparr>faults := tl (faults s),
                    trace := trace s @ [(GetDocument ''projects'' i, Served)]\<rparr>))"
  by (simp add: promise_defs store_defs project_by_id_def split: option.splits)

lemma fetch_all_frame:
  "promise_all (map (\<lambda>m. getDocument projects_c (f m)) ms) s = (r, s') \<Longrightarrow>
   documents s' = documents s \<and> client s' = client s \<and>
   (\<exists>t. trace s' = trace s @ t \<and> map fst t = map (\<lambda>m. GetDocument ''projects'' (f m)) ms \<and>
        (\<forall>ps. r = Inr ps \<longrightarrow> (\<forall>x\<in>set t. snd x = Served)))"
proof (induction ms arbitrary: s r s')
  case Nil
  then show ?case by simp
next
  case (Cons m ms)
  obtain r1 s1 where one: "getDocument projects_c (f m) s = (r1, s1)"
    by (cases "getDocument projects_c (f m) s")
  obtain rs s2 where rest: "promise_all (map (\<lambda>m. getDocument projects_c (f m)) ms) s1 = (rs, s2)"
    by (cases "promise_all (map (\<lambda>m. getDocument projects_c (f m)) ms) s1")
  from one have s1: "documents s1 = documents s" "client s1 = client s"
    and t1: "trace s1 = trace s @ [(GetDocument ''projects'' (f m), outcome_of r1)]"
    by (auto simp: getDocument_projects documents_def outcome_of_def split: if_splits option.splits)
  from Cons.IH [OF rest] obtain t where
    s2: "documents s2 = documents s1" "client s2 = client s1"
    and t2: "trace s2 = trace s1 @ t"
    and calls: "map fst t = map (\<lambda>m. GetDocument ''projects'' (f m)) ms"
    and served: "\<forall>ps. rs = Inr ps \<longrightarrow> (\<forall>x\<in>set t. snd x = Served)"
    by blast
  from Cons.prems one rest have s': "s' = s2"
    and r: "r = (case r1 of Inl e \<Rightarrow> Inl e
                 | Inr v \<Rightarrow> (case rs of Inl e \<Rightarrow> Inl e | Inr vs \<Rightarrow> Inr (v # vs)))"
    by (auto split: sum.splits)
  have "trace s' = trace s @ ((GetDocument ''projects'' (f m), outcome_of r1) # t)"
    by (simp add: s' t2 t1)
  moreover have "map fst ((GetDocument ''projects'' (f m), outcome_of r1) # t) =
      map (\<lambda>m. GetDocument ''projects'' (f m)) (m # ms)"
    by (simp add: calls)
  moreover have "\<forall>ps. r = Inr ps \<longrightarrow>
      (\<forall>x\<in>set ((GetDocument ''projects'' (f m), outcome_of r1) # t). snd x = Served)"
    using served by (auto simp: r outcome_of_def split: sum.splits)
  ultimately show ?case
    using s1 s2 s' by auto
qed

lemma fetch_all_result:
  "promise_all (map (\<lambda>m. getDocument projects_c (f m)) ms) s = (Inr ps, s') \<Longrightarrow>
   map Some ps = map (\<lambda>m. project_by_id s (f m)) ms"
proof (induction ms arbitrary: s ps s')
  case Nil
  then show ?case by simp
next
  case (Cons m ms)
  obtain r1 s1 where one: "getDocument projects_c (f m) s = (r1, s1)"
    by (cases "getDocument projects_c (f m) s")
  obtain rs s2 where rest: "promise_all (map (\<lambda>m. getDocument projects_c (f m)) ms) s1 = (rs, s2)"
    by (cases "promise_all (map (\<lambda>m. getDocument projects_c (f m)) ms) s1")
  from Cons.prems one rest obtain v vs where r1: "r1 = Inr v" and rs: "rs = Inr vs"
    and ps: "ps = v # vs"
    by (auto split: sum.splits)
  from one r1 have v: "project_by_id s (f m) = Some v" and same: "projects s1 = projects s"
    by (auto simp: getDocument_projects split: if_splits option.splits)
  from same have "project_by_id s1 = project_by_id s"
    by (simp add: project_by_id_def fun_eq_iff)
  with Cons.IH [OF rest [unfolded rs]] v ps show ?case
    by simp
qed

lemma fetch_all_total:
  "True \<notin> set (faults s) \<Longrightarrow> \<forall>m\<in>set ms. project_by_id s (f m) \<noteq> None \<Longrightarrow>
   \<exists>ps. fst (promise_all (map (\<lambda>m. getDocument projects_c (f m)) ms) s) = Inr ps"
proof (induction ms arbitrary: s)
  case Nil
  then show ?case by simp
next
  case (Cons m ms)
  from Cons.prems obtain d where d: "project_by_id s (f m) = Some d"
    by auto
  let ?s1 = "s\<lparr>faults := tl (faults s),
               trace := trace s @ [(GetDocument ''projects'' (f m), Served)]\<rparr>"
  from Cons.prems d have one: "getDocument projects_c (f m) s = (Inr d, ?s1)"
    by (simp add: getDocument_projects quiet_next)
  have "project_by_id ?s1 = project_by_id s"
    by (simp add: project_by_id_def fun_eq_iff)
  with Cons.prems have "True \<notin> set (faults ?s1)" "\<forall>m\<in>set ms. project_by_id ?s1 (f m) \<noteq> None"
    by (simp_all add: quiet_tl)
  from Cons.IH [OF this] obtain ps where
    "fst (promise_all (map (\<lambda>m. getDocument projects_c (f m)) ms) ?s1) = Inr ps"
    by blast
  with one show ?case
    by (cases "promise_all (map (\<lambda>m. getDocument projects_c (f m)) ms) ?s1") simp
qed

lemma await_return: "await m (\<lambda>v. return v) = m"
  by (auto simp: await_def return_def fun_eq_iff split: prod.splits sum.splits)

lemma listUserProjects_served:
  assumes "userId \<noteq> []" and "\<not> fails_next (faults s)"
  shows "listUserProjects userId s =
     (if memberships_of s userId = [] then
        (Inr [], s\<lparr>faults := tl (faults s),
                   trace := trace s @ [(ListDocuments ''project_members'', Served)]\<rparr>)
      else
        promise_all
          (map (\<lambda>m. getDocument projects_c (m_projectId (doc_data m))) (memberships_of s userId))
          (s\<lparr>faults := tl (faults s),
             trace := trace s @ [(ListDocuments ''project_members'', Served)]\<rparr>))"
  using assms
  by (simp add: listUserProjects_def await_return memberships_of_def listDocuments_def
      project_members_c_def request_def outcome_of_def await_def return_def)

text \<open>
  C7. With an empty \<open>userId\<close>, \<open>listUserProjects\<close> rejects with the ValidationError
  and issues no call. With a non-empty one and the membership lookup served: at most 100
  membership rows are looked up, by one query; one fetch of a project is issued per row,
  in the order of the rows; no document is written; with no row the result is the empty
  list; whenever the call resolves, its result holds exactly the project of each row, in
  the order of the rows; and it does resolve when no request fails and every row refers
  to a stored project.
\<close>

theorem listUserProjects_contract:
  "(userId = [] \<longrightarrow>
      listUserProjects userId s = (Inl (ValidationError ''userId is required''), s)) \<and>
   (userId \<noteq> [] \<and> \<not> fails_next (faults s) \<longrightarrow>
      length (memberships_of s userId) \<le> 100 \<and>
      map fst (issued s (snd (listUserProjects userId s))) =
        ListDocuments ''project_members'' #
        map (\<lambda>m. GetDocument ''projects'' (m_projectId (doc_data m))) (memberships_of s userId) \<and>
      documents (snd (listUserProjects userId s)) = documents s \<and>
      (memberships_of s userId = [] \<longrightarrow> fst (listUserProjects userId s) = Inr []) \<and>
      (\<forall>ps. fst (listUserProjects userId s) = Inr ps \<longrightarrow>
         map Some ps =
           map (\<lambda>m. project_by_id s (m_projectId (doc_data m))) (memberships_of s userId)) \<and>
      (no_remote_failure s \<and>
       (\<forall>m\<in>set (memberships_of s userId). project_by_id s (m_projectId (doc_data m)) \<noteq> None) \<longrightarrow>
         (\<exists>ps. fst (listUserProjects userId s) = Inr ps)))"
proof (rule conjI; rule impI)
  assume "userId = []"
  then show "listUserProjects userId s = (Inl (ValidationError ''userId is required''), s)"
    by (simp add: listUserProjects_def throw_def)
next
  assume h: "userId \<noteq> [] \<and> \<not> fails_next (faults s)"
  let ?ms = "memberships_of s userId"
  let ?s1 = "s\<lparr>faults := tl (faults s),
               trace := trace s @ [(ListDocuments ''project_members'', Served)]\<rparr>"
  let ?all = "promise_all (map (\<lambda>m. getDocument projects_c (m_projectId (doc_data m))) ?ms) ?s1"
  from h have run: "listUserProjects userId s = (if ?ms = [] then (Inr [], ?s1) else ?all)"
    by (simp add: listUserProjects_served)
  have all_nil: "?ms = [] \<Longrightarrow> ?all = (Inr [], ?s1)"
    by simp
  from run all_nil have run': "listUserProjects userId s = ?all"
    by (cases "?ms = []") simp_all
  obtain r s' where rs: "?all = (r, s')"
    by (cases ?all)
  from fetch_all_frame [OF rs] obtain t where
    docs: "documents s' = documents ?s1"
    and tr: "trace s' = trace ?s1 @ t"
    and calls: "map fst t = map (\<lambda>m. GetDocument ''projects'' (m_projectId (doc_data m))) ?ms"
    by blast
  have same: "project_by_id ?s1 = project_by_id s"
    by (simp add: project_by_id_def fun_eq_iff)
  have 1: "length ?ms \<le> 100"
    by (simp add: memberships_of_def)
  have 2: "map fst (issued s (snd (listUserProjects userId s))) =
        ListDocuments ''project_members'' #
        map (\<lambda>m. GetDocument ''projects'' (m_projectId (doc_data m))) ?ms"
    by (simp add: run' rs issued_def tr calls)
  have 3: "documents (snd (listUserProjects userId s)) = documents s"
    using docs by (simp add: run' rs documents_def)
  have 4: "?ms = [] \<longrightarrow> fst (listUserProjects userId s) = Inr []"
    by (simp add: run)
  have 5: "\<forall>ps. fst (listUserProjects userId s) = Inr ps \<longrightarrow>
         map Some ps = map (\<lambda>m. project_by_id s (m_projectId (doc_data m))) ?ms"
  proof (intro allI impI)
    fix ps
    assume "fst (listUserProjects userId s) = Inr ps"
    with run' rs have "?all = (Inr ps, s')" by simp
    from fetch_all_result [OF this] show
      "map Some ps = map (\<lambda>m. project_by_id s (m_projectId (doc_data m))) ?ms"
      by (simp add: same)
  qed
  have 6: "no_remote_failure s \<and>
       (\<forall>m\<in>set ?ms. project_by_id s (m_projectId (doc_data m)) \<noteq> None) \<longrightarrow>
         (\<exists>ps. fst (listUserProjects userId s) = Inr ps)"
  proof
    assume a: "no_remote_failure s \<and>
       (\<forall>m\<in>set ?ms. project_by_id s (m_projectId (doc_data m)) \<noteq> None)"
    then have "True \<notin> set (faults ?s1)"
      by (simp add: no_remote_failure_def quiet_tl)
    moreover from a have "\<forall>m\<in>set ?ms. project_by_id ?s1 (m_projectId (doc_data m)) \<noteq> None"
      by (simp add: same)
    ultimately have "\<exists>ps. fst ?all = Inr ps"
      by (rule fetch_all_total)
    then show "\<exists>ps. fst (listUserProjects userId s) = Inr ps"
      by (simp add: run')
  qed
  from 1 2 3 4 5 6
  show "length (memberships_of s userId) \<le> 100 \<and>
      map fst (issued s (snd (listUserProjects userId s))) =
        ListDocuments ''project_members'' #
        map (\<lambda>m. GetDocument ''projects'' (m_projectId (doc_data m))) (memberships_of s userId) \<and>
      documents (snd (listUserProjects userId s)) = documents s \<and>
      (memberships_of s userId = [] \<longrightarrow> fst (listUserProjects userId s) = Inr []) \<and>
      (\<forall>ps. fst (listUserProjects userId s) = Inr ps \<longrightarrow>
         map Some ps =
           map (\<lambda>m. project_by_id s (m_projectId (doc_data m))) (memberships_of s userId)) \<and>
      (no_remote_failure s \<and>
       (\<forall>m\<in>set (memberships_of s userId). project_by_id s (m_projectId (doc_data m)) \<noteq> None) \<longrightarrow>
         (\<exists>ps. fst (listUserProjects userId s) = Inr ps))"
    by (intro conjI)
qed

theorem listUserProjects_contract_witness:
  "listUserProjects [] demo_world = (Inl (ValidationError ''userId is required''), demo_world) \<and>
   memberships_of demo_world ''u2'' = [] \<and>
   fst (listUserProjects ''u2'' demo_world) = Inr [] \<and>
   map (m_projectId \<circ> doc_data) (memberships_of two_projects_world ''u3'') = [''p2'', ''p1''] \<and>
   map doc_id (projects two_projects_world) = [''p1'', ''p2''] \<and>
   fst (listUserProjects ''u3'' two_projects_world) =
     Inr [\<lparr>doc_id = ''p2'', doc_data =
             \<lparr>p_name = ''Audit'', p_ownerId = ''u1'', p_createdAt = ''t1''\<rparr>\<rparr>,
          \<lparr>doc_id = ''p1'', doc_data =
             \<lparr>p_name = ''Launch'', p_ownerId = ''u1'', p_createdAt = ''t0''\<rparr>\<rparr>] \<and>
   map fst (issued two_projects_world (snd (listUserProjects ''u3'' two_projects_world))) =
     [ListDocuments ''project_members'', GetDocument ''projects'' ''p2'',
      GetDocument ''projects'' ''p1'']"
proof -
  have e: "memberships_of demo_world ''u2'' = []"
    by (simp add: memberships_of_def demo_world_def)
  have ms: "memberships_of two_projects_world ''u3'' =
     [\<lparr>doc_id = ''m3'', doc_data =
         \<lparr>m_projectId = ''p2'', m_userId = ''u3'', m_joinedAt = ''t2''\<rparr>\<rparr>,
      \<lparr>doc_id = ''m4'', doc_data =
         \<lparr>m_projectId = ''p1'', m_userId = ''u3'', m_joinedAt = ''t3''\<rparr>\<rparr>]"
    by (simp add: memberships_of_def two_projects_world_def)
  have p: "project_by_id two_projects_world ''p2'' =
       Some \<lparr>doc_id = ''p2'', doc_data =
               \<lparr>p_name = ''Audit'', p_ownerId = ''u1'', p_createdAt = ''t1''\<rparr>\<rparr>"
     "project_by_id two_projects_world ''p1'' =
       Some \<lparr>doc_id = ''p1'', doc_data =
               \<lparr>p_name = ''Launch'', p_ownerId = ''u1'', p_createdAt = ''t0''\<rparr>\<rparr>"
    by (simp_all add: project_by_id_def two_projects_world_def)
  have q: "\<not> fails_next (faults demo_world)" "\<not> fails_next (faults two_projects_world)"
    "no_remote_failure two_projects_world"
    by (simp_all add: fails_next_def no_remote_failure_def demo_world_def two_projects_world_def)
  have ids: "map doc_id (projects two_projects_world) = [''p1'', ''p2'']"
    by (simp add: two_projects_world_def)
  from listUserProjects_contract [where userId = "[]" and s = demo_world]
  have 1: "listUserProjects [] demo_world =
      (Inl (ValidationError ''userId is required''), demo_world)"
    by simp
  from listUserProjects_contract [where userId = "''u2''" and s = demo_world] q e
  have 2: "fst (listUserProjects ''u2'' demo_world) = Inr []"
    by simp
  from listUserProjects_contract [where userId = "''u3''" and s = two_projects_world] q ms p
  have 3: "fst (listUserProjects ''u3'' two_projects_world) =
     Inr [\<lparr>doc_id = ''p2'', doc_data =
             \<lparr>p_name = ''Audit'', p_ownerId = ''u1'', p_createdAt = ''t1''\<rparr>\<rparr>,
          \<lparr>doc_id = ''p1'', doc_data =
             \<lparr>p_name = ''Launch'', p_ownerId = ''u1'', p_createdAt = ''t0''\<rparr>\<rparr>]"
    and 4: "map fst (issued two_projects_world (snd (listUserProjects ''u3'' two_projects_world))) =
     [ListDocuments ''project_members'', GetDocument ''projects'' ''p2'',
      GetDocument ''projects'' ''p1'']"
    by (auto simp: map_eq_Cons_conv)
  from e ms ids 1 2 3 4 show ?thesis
    by simp
qed

section \<open>Propagation of failures\<close>

lemma all_served_iff:
  "all_served s s' = (\<exists>t. trace s' = trace s @ t \<and> (\<forall>x\<in>set t. snd x = Served))"
proof
  assume "all_served s s'"
  then have "trace s' = trace s @ issued s s'" "\<forall>x\<in>set (issued s s'). snd x = Served"
    by (simp_all add: all_served_def issued_def list_all_iff)
       (metis append_take_drop_id)
  then show "\<exists>t. trace s' = trace s @ t \<and> (\<forall>x\<in>set t. snd x = Served)"
    by blast
next
  assume "\<exists>t. trace s' = trace s @ t \<and> (\<forall>x\<in>set t. snd x = Served)"
  then show "all_served s s'"
    by (auto simp: all_served_def issued_def list_all_iff)
qed

lemma all_served_refl: "all_served s s"
  by (simp add: all_served_iff)

lemma all_served_trans: "all_served s s1 \<Longrightarrow> all_served s1 s2 \<Longrightarrow> all_served s s2"
  by (auto simp: all_served_iff)

lemma propagates_return: "propagates (return v)"
  by (simp add: propagates_def return_def all_served_refl)

lemma propagates_throw: "propagates (throw e)"
  by (simp add: propagates_def throw_def)

lemma propagates_await:
  assumes "propagates m" and "\<And>v. propagates (k v)"
  shows "propagates (await m k)"
  unfolding propagates_def
proof (intro allI impI)
  fix s v s'
  assume run: "await m k s = (Inr v, s')"
  obtain r s1 where m: "m s = (r, s1)"
    by (cases "m s")
  with run obtain x where r: "r = Inr x" and k: "k x s1 = (Inr v, s')"
    by (cases r) (simp_all add: await_def)
  from assms(1) m r have "all_served s s1"
    by (simp add: propagates_def)
  moreover from assms(2) k have "all_served s1 s'"
    by (simp add: propagates_def)
  ultimately show "all_served s s'"
    by (rule all_served_trans)
qed

lemma propagates_sdk_call: "propagates (sdk_call c op)"
  by (auto simp: propagates_def sdk_call_def all_served_iff outcome_of_def split: prod.splits)

lemma propagates_attach: "propagates (attach rt watcher event h)"
  by (cases h) (simp_all add: attach_def propagates_return propagates_sdk_call)

lemma propagates_subscribeActivityLogs: "propagates (subscribeActivityLogs rt projectId hs)"
  unfolding subscribeActivityLogs_def
  by (simp add: propagates_throw propagates_return propagates_await propagates_sdk_call
      propagates_attach)

lemma subscribeActivityLogs_disposer:
  "subscribeActivityLogs rt projectId hs s = (Inr dispose, s') \<Longrightarrow>
   \<exists>watcher. dispose = unsubscribe rt watcher"
  by (auto simp: subscribeActivityLogs_def await_def return_def throw_def
      split: if_splits prod.splits sum.splits)

lemma propagates_signup: "propagates (signup a email password data)"
  unfolding signup_def
  by (simp add: propagates_return propagates_await propagates_sdk_call)

lemma propagates_login: "propagates (login a email password)"
  unfolding login_def
  by (simp add: propagates_return propagates_await propagates_sdk_call)

lemma propagates_createProject: "propagates (createProject ownerId name now)"
  unfolding propagates_def
  by (auto dest!: createProject_Inr simp: all_served_iff)

lemma propagates_addUserToProject: "propagates (addUserToProject projectId userId actorId now)"
  unfolding propagates_def
  by (auto dest!: addUserToProject_Inr simp: all_served_iff)

lemma propagates_createTask:
  "propagates (createTask actorId projectId title description assigneeId dueDate now)"
  unfolding propagates_def
  by (auto dest!: createTask_Inr simp: all_served_iff)

lemma propagates_assignTask: "propagates (assignTask actorId taskId assigneeId now)"
  unfolding propagates_def
  by (auto dest!: assignTask_Inr simp: all_served_iff)

lemma propagates_updateTaskStatus: "propagates (updateTaskStatus actorId taskId status now)"
  unfolding propagates_def
  by (auto dest!: updateTaskStatus_Inr simp: all_served_iff)

lemma propagates_listProjectTasks: "propagates (listProjectTasks projectId)"
  by (auto simp: propagates_def listProjectTasks_def promise_defs store_defs all_served_iff
      split: if_splits)

lemma propagates_listActivityLogs: "propagates (listActivityLogs projectId limit)"
  by (auto simp: propagates_def listActivityLogs_def listDocumentsDesc_def promise_defs
      store_defs all_served_iff split: if_splits)

lemma propagates_listUserProjects: "propagates (listUserProjects userId)"
  unfolding propagates_def
proof (intro allI impI)
  fix s :: "'a world" and ps s'
  assume run: "listUserProjects userId s = (Inr ps, s')"
  let ?s1 = "s\<lparr>faults := tl (faults s),
               trace := trace s @ [(ListDocuments ''project_members'', Served)]\<rparr>"
  from run have ne: "userId \<noteq> []"
    by (auto simp: listUserProjects_def throw_def)
  from run ne have served: "\<not> fails_next (faults s)"
    by (auto simp: listUserProjects_def listDocuments_def request_def await_def)
  have first: "all_served s ?s1"
    by (simp add: all_served_iff)
  show "all_served s s'"
  proof (cases "memberships_of s userId = []")
    case True
    with run ne served have "s' = ?s1"
      by (simp add: listUserProjects_served)
    with first show ?thesis by simp
  next
    case False
    with run ne served have
      "promise_all
         (map (\<lambda>m. getDocument projects_c (m_projectId (doc_data m))) (memberships_of s userId))
         ?s1 = (Inr ps, s')"
      by (simp add: listUserProjects_served)
    from fetch_all_frame [OF this] have "all_served ?s1 s'"
      unfolding all_served_iff by blast
    with first show ?thesis by (rule all_served_trans)
  qed
qed

lemma unsubscribe_resolves: "fst (unsubscribe rt watcher s) = Inr ()"
  by (auto simp: unsubscribe_def try_catch_def sdk_call_def return_def split: prod.splits sum.splits)

lemma unsubscribe_closed:
  "rt_disconnect rt watcher (client s) = (Inl e, client s) \<Longrightarrow>
   unsubscribe rt watcher s =
     (Inr (), s\<lparr>trace := trace s @ [(RealtimeCall ''disconnect'', Failed e)]\<rparr>)"
  by (simp add: unsubscribe_def try_catch_def sdk_call_def return_def outcome_of_def)

lemma getCurrentUser_resolves: "\<exists>u. fst (getCurrentUser a s) = Inr u"
  by (auto simp: getCurrentUser_def try_catch_def await_def sdk_call_def return_def
      split: prod.splits sum.splits)

lemma getCurrentUser_swallows:
  "auth_isAuthenticated a (client s) = (Inr True, x1) \<Longrightarrow>
   auth_getCurrentUser a x1 = (Inl e, x2) \<Longrightarrow>
   fst (getCurrentUser a s) = Inr None"
  by (simp add: getCurrentUser_def try_catch_def await_def sdk_call_def return_def)

text \<open>
  C8, as stated, fails: the disposer is not the only place where an error is swallowed.
  \<open>getCurrentUser\<close> catches every error too: with an open session and an unreachable
  server it resolves to \<^verbatim>\<open>null\<close> although its call to the provider failed.
\<close>

theorem getCurrentUser_swallows_counterexample:
  "getCurrentUser offline_auth empty_world =
     (Inr None,
      empty_world\<lparr>trace := [(AuthCall ''isAuthenticated'', Served),
                           (AuthCall ''getCurrentUser'', Failed (RemoteError ''network''))]\<rparr>) \<and>
   \<not> propagates (getCurrentUser offline_auth)"
proof -
  have run: "getCurrentUser offline_auth empty_world =
     (Inr None,
      empty_world\<lparr>trace := [(AuthCall ''isAuthenticated'', Served),
                           (AuthCall ''getCurrentUser'', Failed (RemoteError ''network''))]\<rparr>)"
    by (simp add: getCurrentUser_def offline_auth_def try_catch_def await_def sdk_call_def
        return_def throw_def outcome_of_def empty_world_def)
  have "\<not> all_served empty_world
        (empty_world\<lparr>trace := [(AuthCall ''isAuthenticated'', Served),
                           (AuthCall ''getCurrentUser'', Failed (RemoteError ''network''))]\<rparr>)"
    by (simp add: all_served_def issued_def empty_world_def)
  with run have "\<not> propagates (getCurrentUser offline_auth)"
    unfolding propagates_def by blast
  with run show ?thesis by simp
qed

text \<open>
  C8, amended. Every service function other than \<open>getCurrentUser\<close> propagates the
  failures of its calls: it resolves only if every call it issued was served. Errors are
  swallowed in two places. The disposer that \<open>subscribeActivityLogs\<close> returns never
  throws, and when \<open>disconnect\<close> throws without effect, as on a channel that is already
  closed, calling it changes nothing but the trace of calls. \<open>getCurrentUser\<close> never
  throws either, and resolves to \<^verbatim>\<open>null\<close> when the fetch of the current user fails.
\<close>

theorem failures_propagate_but_for_two_catches:
  "propagates (createProject ownerId name now) \<and>
   propagates (listUserProjects userId) \<and>
   propagates (addUserToProject projectId userId actorId now) \<and>
   propagates (createTask actorId projectId title description assignee dueDate now) \<and>
   propagates (assignTask actorId taskId assigneeId now) \<and>
   propagates (updateTaskStatus actorId taskId status now) \<and>
   propagates (listProjectTasks projectId) \<and>
   propagates (listActivityLogs projectId limit) \<and>
   propagates (subscribeActivityLogs rt projectId hs) \<and>
   propagates (signup a email password data) \<and>
   propagates (login a email password) \<and>
   propagates (logout a) \<and>
   propagates (onAuthEvent a callbacks) \<and>
   propagates (isAuthenticated a) \<and>
   (subscribeActivityLogs rt projectId hs s = (Inr dispose, s') \<longrightarrow>
      (\<exists>watcher. dispose = unsubscribe rt watcher)) \<and>
   fst (unsubscribe rt watcher s) = Inr () \<and>
   (rt_disconnect rt watcher (client s) = (Inl e, client s) \<longrightarrow>
      unsubscribe rt watcher s =
        (Inr (), s\<lparr>trace := trace s @ [(RealtimeCall ''disconnect'', Failed e)]\<rparr>)) \<and>
   (\<exists>u. fst (getCurrentUser a s) = Inr u) \<and>
   (auth_isAuthenticated a (client s) = (Inr True, x) \<and>
    auth_getCurrentUser a x = (Inl err, y) \<longrightarrow>
      fst (getCurrentUser a s) = Inr None)"
proof -
  have svc: "propagates (logout a)" "propagates (onAuthEvent a callbacks)"
    "propagates (isAuthenticated a)"
    by (simp_all add: logout_def onAuthEvent_def isAuthenticated_def propagates_sdk_call)
  have disposer: "subscribeActivityLogs rt projectId hs s = (Inr dispose, s') \<longrightarrow>
      (\<exists>watcher. dispose = unsubscribe rt watcher)"
    by (rule impI) (rule subscribeActivityLogs_disposer)
  have closed: "rt_disconnect rt watcher (client s) = (Inl e, client s) \<longrightarrow>
      unsubscribe rt watcher s =
        (Inr (), s\<lparr>trace := trace s @ [(RealtimeCall ''disconnect'', Failed e)]\<rparr>)"
    by (rule impI) (rule unsubscribe_closed)
  have swallow: "auth_isAuthenticated a (client s) = (Inr True, x) \<and>
    auth_getCurrentUser a x = (Inl err, y) \<longrightarrow> fst (getCurrentUser a s) = Inr None"
    by (auto intro: getCurrentUser_swallows)
  show ?thesis
    by (intro conjI propagates_createProject propagates_listUserProjects
        propagates_addUserToProject propagates_createTask propagates_assignTask
        propagates_updateTaskStatus propagates_listProjectTasks propagates_listActivityLogs
        propagates_subscribeActivityLogs propagates_signup propagates_login svc disposer
        unsubscribe_resolves closed getCurrentUser_resolves swallow)
qed

theorem failures_propagate_but_for_two_catches_witness:
  "fst (createProject ''u1'' ''Launch'' ''t0'' empty_world) =
     Inr \<lparr>doc_id = fresh_id 0, doc_data =
            \<lparr>p_name = ''Launch'', p_ownerId = ''u1'', p_createdAt = ''t0''\<rparr>\<rparr> \<and>
   all_served empty_world (snd (createProject ''u1'' ''Launch'' ''t0'' empty_world)) \<and>
   rt_disconnect closed_channel () (client empty_world) =
     (Inl (RemoteError ''channel is closed''), client empty_world) \<and>
   unsubscribe closed_channel () empty_world =
     (Inr (), empty_world\<lparr>trace := trace empty_world @
        [(RealtimeCall ''disconnect'', Failed (RemoteError ''channel is closed''))]\<rparr>) \<and>
   fst (getCurrentUser offline_auth empty_world) = Inr None"
proof -
  have run: "createProject ''u1'' ''Launch'' ''t0'' empty_world =
     (Inr \<lparr>doc_id = fresh_id 0, doc_data =
            \<lparr>p_name = ''Launch'', p_ownerId = ''u1'', p_createdAt = ''t0''\<rparr>\<rparr>,
      snd (createProject ''u1'' ''Launch'' ''t0'' empty_world))"
    by (simp add: createProject_def promise_defs store_defs empty_world_def fails_next_def)
  have closed: "rt_disconnect closed_channel () (client empty_world) =
     (Inl (RemoteError ''channel is closed''), client empty_world)"
    by (simp add: closed_channel_def throw_def)
  have auth: "auth_isAuthenticated offline_auth (client empty_world) = (Inr True, ())"
    "auth_getCurrentUser offline_auth () = (Inl (RemoteError ''network''), ())"
    by (simp_all add: offline_auth_def return_def throw_def)
  note all = failures_propagate_but_for_two_catches
    [where ownerId = "''u1''" and name = "''Launch''" and now = "''t0''"
       and userId = "''u1''" and projectId = "''p1''" and actorId = "''u1''"
       and title = "''Plan''" and description = None and assignee = None and dueDate = None
       and taskId = "''t1''" and assigneeId = "''u1''" and status = "''todo''"
       and limit = None and email = "''a@b.c''" and password = "''pw''" and data = None
       and callbacks = "()" and dispose = "unsubscribe closed_channel ()" and s' = empty_world
       and hs = "\<lparr>onConnected = None, onCreate = None, onUpdate = None, onDelete = None,
                 onError = None, onClose = None\<rparr>"
       and rt = closed_channel and watcher = "()" and s = empty_world
       and e = "RemoteError ''channel is closed''" and a = offline_auth
       and x = "()" and y = "()" and err = "RemoteError ''network''"]
  from all have "propagates (createProject ''u1'' ''Launch'' ''t0'' :: (unit world, _) promise)"
    by (rule conjunct1)
  with run have 1: "all_served empty_world (snd (createProject ''u1'' ''Launch'' ''t0'' empty_world))"
    unfolding propagates_def by blast
  from all closed have 2: "unsubscribe closed_channel () empty_world =
     (Inr (), empty_world\<lparr>trace := trace empty_world @
        [(RealtimeCall ''disconnect'', Failed (RemoteError ''channel is closed''))]\<rparr>)"
    by blast
  from all auth have 3: "fst (getCurrentUser offline_auth empty_world) = Inr None"
    by (simp only: empty_world_def world.simps) blast
  from run have 0: "fst (createProject ''u1'' ''Launch'' ''t0'' empty_world) =
     Inr \<lparr>doc_id = fresh_id 0, doc_data =
            \<lparr>p_name = ''Launch'', p_ownerId = ''u1'', p_createdAt = ''t0''\<rparr>\<rparr>"
    by (rule arg_cong [where f = fst, THEN trans]) simp
  show ?thesis by (intro conjI) (rule 0, rule 1, rule closed, rule 2, rule 3)
qed

end
